theory Spec2Isabelle
  imports Complex_Main "HOL-Library.Word"
begin

section \<open>Instruction encoding of the token-metadata client\<close>

text \<open>
  A shallow embedding of \<^verbatim>\<open>clients/js-legacy/src/instruction.ts\<close>. Every builder of that
  file composes encoders of the codec library and hands the encoded bytes, together with
  the account list, to \<^verbatim>\<open>TransactionInstruction\<close>. An encoder is modelled as a function from
  the value to either an error (the exception the encoder throws) or the bytes it writes.
\<close>

subsection \<open>Bytes, errors, encoders\<close>

type_synonym u8 = "8 word"
type_synonym bytes = "u8 list"

text \<open>
  A JavaScript \<^verbatim>\<open>number\<close> is modelled as a rational, so that a fraction such as 1.5 is a
  value of the model; NaN and the infinities are not. A \<^verbatim>\<open>bigint\<close> is an \<^typ>\<open>int\<close>.
\<close>

type_synonym number = rat

text \<open>The exceptions the encoders used here can throw.\<close>

datatype error =
    NUMBER_OUT_OF_RANGE string number
  | CANNOT_CONVERT_TO_BIGINT number
  | INVALID_DATA_ENUM_VARIANT string

type_synonym 'a Encoder = "'a \<Rightarrow> error + bytes"

text \<open>Writing one encoded part after another: the first exception wins.\<close>

definition write_then :: "error + bytes \<Rightarrow> error + bytes \<Rightarrow> error + bytes" where
  "write_then r1 r2 =
     (case r1 of
        Inl e \<Rightarrow> Inl e
      | Inr b1 \<Rightarrow> (case r2 of Inl e \<Rightarrow> Inl e | Inr b2 \<Rightarrow> Inr (b1 @ b2)))"

subsection \<open>The codec library's primitives\<close>

text \<open>
  The builders import their primitives from the codec library, which is not part of this
  repository. Each primitive below is modelled from the spec: the wire contract of its
  section 6 (little-endian integers, a u32 length prefix before the UTF-8 bytes of a
  string, a one-byte presence flag before an optional value, 32 raw bytes for a public
  key), together with the library's documented behaviour where the spec is silent.

  A JavaScript string is modelled by the sequence of its UTF-8 bytes, one \<^typ>\<open>char\<close> per
  byte, so that \<^term>\<open>length\<close> is the UTF-8 byte length. A string with an unpaired
  surrogate has no UTF-8 form and is not a value of the model.
\<close>

text \<open>The low \<open>n\<close> bytes of an integer, least significant first.\<close>

fun le_bytes :: "nat \<Rightarrow> int \<Rightarrow> bytes" where
  "le_bytes 0 v = []"
| "le_bytes (Suc n) v = word_of_int v # le_bytes n (v div 256)"

text \<open>
  Modelled from the spec: the library's number encoders. A value outside the range of the
  integer type is refused with an exception; otherwise the value is written little-endian
  on the type's fixed number of bytes. The u8, u16 and u32 encoders store a number through
  the typed view of the buffer, which drops the fraction of a number in range.
\<close>

definition numberEncoderFactory ::
  "string \<Rightarrow> nat \<Rightarrow> number \<Rightarrow> number \<Rightarrow> number Encoder" where
  "numberEncoderFactory name sz lo hi v =
     (if v < lo \<or> v > hi then Inl (NUMBER_OUT_OF_RANGE name v)
      else Inr (le_bytes sz \<lfloor>v\<rfloor>))"

definition getU8Encoder :: "number Encoder" where
  "getU8Encoder = numberEncoderFactory ''u8'' 1 0 255"

definition getU16Encoder :: "number Encoder" where
  "getU16Encoder = numberEncoderFactory ''u16'' 2 0 65535"

definition getU32Encoder :: "number Encoder" where
  "getU32Encoder = numberEncoderFactory ''u32'' 4 0 4294967295"

text \<open>
  Modelled from the spec: the u64 encoder takes a \<^verbatim>\<open>number\<close> or a \<^verbatim>\<open>bigint\<close>. After the range
  check it converts the value to a \<^verbatim>\<open>bigint\<close>, which raises an exception for a number that
  is not an integer.
\<close>

datatype NumberOrBigInt = Number number | BigInt int

definition getU64Encoder :: "NumberOrBigInt Encoder" where
  "getU64Encoder v =
     (let q = (case v of Number n \<Rightarrow> n | BigInt k \<Rightarrow> of_int k)
      in if q < 0 \<or> q > 18446744073709551615 then Inl (NUMBER_OUT_OF_RANGE ''u64'' q)
         else (case v of
                 Number n \<Rightarrow>
                   if of_int \<lfloor>n\<rfloor> = n then Inr (le_bytes 8 \<lfloor>n\<rfloor>)
                   else Inl (CANNOT_CONVERT_TO_BIGINT n)
               | BigInt k \<Rightarrow> Inr (le_bytes 8 k)))"

text \<open>Modelled from the spec: \<^verbatim>\<open>transformEncoder\<close> maps the value before encoding it.\<close>

definition transformEncoder :: "'b Encoder \<Rightarrow> ('a \<Rightarrow> 'b) \<Rightarrow> 'a Encoder" where
  "transformEncoder encoder f v = encoder (f v)"

text \<open>Modelled from the spec: a boolean is the u8 value 1 or 0.\<close>

definition getBooleanEncoder :: "bool Encoder" where
  "getBooleanEncoder = transformEncoder getU8Encoder (\<lambda>b. if b then 1 else 0)"

text \<open>Modelled from the spec: \<^verbatim>\<open>getBytesEncoder\<close> writes the bytes as they are.\<close>

definition getBytesEncoder :: "bytes Encoder" where
  "getBytesEncoder bs = Inr bs"

text \<open>
  Modelled from the spec: \<^verbatim>\<open>fixEncoderSize\<close> gives an encoder a window of a fixed number of
  bytes. An encoding of exactly that size fills the window; the library cuts a longer one
  and leaves the rest of the zero-initialised window untouched for a shorter one. The only
  use in the source is the window of 32 bytes for a public key, whose byte representation
  always has 32 bytes.
\<close>

definition fixEncoderSize :: "'a Encoder \<Rightarrow> nat \<Rightarrow> 'a Encoder" where
  "fixEncoderSize encoder fixedBytes v =
     (case encoder v of
        Inl e \<Rightarrow> Inl e
      | Inr variableByteArray \<Rightarrow>
          Inr (if length variableByteArray > fixedBytes
               then take fixedBytes variableByteArray
               else variableByteArray @ replicate (fixedBytes - length variableByteArray) 0))"

text \<open>Modelled from the spec: the UTF-8 encoder writes the UTF-8 bytes of the string.\<close>

definition getUtf8Encoder :: "string Encoder" where
  "getUtf8Encoder s = Inr (map of_char s)"

text \<open>
  Modelled from the spec: \<^verbatim>\<open>addEncoderSizePrefix\<close> writes the number of encoded bytes with
  the prefix encoder, then the encoded bytes.
\<close>

definition addEncoderSizePrefix :: "'a Encoder \<Rightarrow> number Encoder \<Rightarrow> 'a Encoder" where
  "addEncoderSizePrefix encoder prefix v =
     (case encoder v of
        Inl e \<Rightarrow> Inl e
      | Inr encoderBytes \<Rightarrow>
          write_then (prefix (of_nat (length encoderBytes))) (Inr encoderBytes))"

text \<open>Modelled from the spec: a pair is encoded as its two components in order.\<close>

definition getTupleEncoder :: "'a Encoder \<times> 'b Encoder \<Rightarrow> ('a \<times> 'b) Encoder" where
  "getTupleEncoder es v = write_then (fst es (fst v)) (snd es (snd v))"

text \<open>
  Modelled from the spec: a struct is the concatenation of its named fields in the
  declared order. The fields of a struct have different types, so each entry of the list
  carries the field's name and the result of the field's encoder on the field's value.
\<close>

fun getStructEncoder :: "(string \<times> (error + bytes)) list \<Rightarrow> error + bytes" where
  "getStructEncoder [] = Inr []"
| "getStructEncoder (f # fs) = write_then (snd f) (getStructEncoder fs)"

text \<open>
  Modelled from the spec: an optional value is a one-byte presence flag, followed by the
  value's encoding when the value is present.
\<close>

definition getOptionEncoder :: "'a Encoder \<Rightarrow> 'a option Encoder" where
  "getOptionEncoder item v =
     (case v of
        None \<Rightarrow> getBooleanEncoder False
      | Some x \<Rightarrow> getTupleEncoder (getBooleanEncoder, item) (True, x))"

text \<open>
  Modelled from the spec: an array is the u32 number of its items, followed by the items
  in order.
\<close>

fun write_items :: "'a Encoder \<Rightarrow> 'a list \<Rightarrow> error + bytes" where
  "write_items item [] = Inr []"
| "write_items item (x # xs) = write_then (item x) (write_items item xs)"

definition getArrayEncoder :: "'a Encoder \<Rightarrow> 'a list Encoder" where
  "getArrayEncoder item xs =
     write_then (getU32Encoder (of_nat (length xs))) (write_items item xs)"

text \<open>
  Modelled from the spec: a tagged union is the u8 index of the value's variant in the
  table of variants, followed by that variant's encoding of the value. A value whose kind
  is in no entry of the table is refused. The kind of a value is read by \<open>kind\<close>.
\<close>

fun findIndex :: "('a \<Rightarrow> bool) \<Rightarrow> 'a list \<Rightarrow> nat option" where
  "findIndex p [] = None"
| "findIndex p (x # xs) =
     (if p x then Some 0 else (case findIndex p xs of None \<Rightarrow> None | Some i \<Rightarrow> Some (Suc i)))"

definition getDataEnumEncoder ::
  "('v \<Rightarrow> string) \<Rightarrow> (string \<times> 'v Encoder) list \<Rightarrow> 'v Encoder" where
  "getDataEnumEncoder kind variants variant =
     (case findIndex (\<lambda>entry. kind variant = fst entry) variants of
        None \<Rightarrow> Inl (INVALID_DATA_ENUM_VARIANT (kind variant))
      | Some discriminator \<Rightarrow>
          write_then (getU8Encoder (of_nat discriminator))
                     (snd (variants ! discriminator) variant))"

subsection \<open>Public keys\<close>

text \<open>
  Modelled from the spec: the key class of the transaction library, a key-pair address
  with a canonical representation of 32 bytes. The builders use a key only through
  \<^verbatim>\<open>toBytes\<close>, which always yields those 32 bytes: a key is a sequence of exactly 32 bytes.
\<close>

typedef PublicKey = "{bs :: bytes. length bs = 32}"
  morphisms toBytes PublicKey
  by (rule exI [of _ "replicate 32 0"]) simp

text \<open>
  Modelled from the spec: \<^verbatim>\<open>SystemProgram.programId\<close> of the transaction library, the
  well-known all-zero key.
\<close>

definition SystemProgram_programId :: PublicKey where
  "SystemProgram_programId = PublicKey (replicate 32 0)"

subsection \<open>The encoders of instruction.ts\<close>

definition getInstructionEncoder :: "bytes \<Rightarrow> 'a Encoder \<Rightarrow> 'a Encoder" where
  "getInstructionEncoder discriminator dataEncoder =
     transformEncoder (getTupleEncoder (getBytesEncoder, dataEncoder))
       (\<lambda>data. (discriminator, data))"

definition getPublicKeyEncoder :: "PublicKey Encoder" where
  "getPublicKeyEncoder = transformEncoder (fixEncoderSize getBytesEncoder 32) toBytes"

definition getStringEncoder :: "string Encoder" where
  "getStringEncoder = addEncoderSizePrefix getUtf8Encoder getU32Encoder"

subsection \<open>Accounts and instructions\<close>

record AccountMeta =
  isSigner :: bool
  isWritable :: bool
  pubkey :: PublicKey

record TransactionInstruction =
  programId :: PublicKey
  keys :: "AccountMeta list"
  data :: bytes

text \<open>A destructuring default: the default replaces a property that is undefined.\<close>

definition default_to :: "'a \<Rightarrow> 'a option \<Rightarrow> 'a" where
  "default_to d v = (case v of None \<Rightarrow> d | Some x \<Rightarrow> x)"

subsection \<open>Initialize\<close>

record Creator =
  address :: PublicKey
  verified :: bool
  share :: number

record Collection =
  key :: PublicKey
  verified :: bool

record Uses =
  use_method :: number
  remaining :: number
  total :: number

text \<open>
  The argument record. An optional property (\<^verbatim>\<open>creators?\<close>) is an \<^typ>\<open>'a option\<close>, \<open>None\<close>
  for a property that is omitted; a property that may be \<^verbatim>\<open>null\<close> is an option again,
  \<open>None\<close> for \<^verbatim>\<open>null\<close>.
\<close>

record InitializeInstructionArgs =
  metadata :: PublicKey
  mint :: PublicKey
  mintAuthority :: PublicKey
  name :: string
  programId :: PublicKey
  symbol :: string
  updateAuthority :: PublicKey
  uri :: string
  creators :: "Creator list option"
  sellerFeeBasisPoints :: "number option"
  collection :: "Collection option option"
  uses :: "Uses option option"

text \<open>The object that is encoded: the seven fields of the struct, in its order.\<close>

record InitializeData =
  name :: string
  symbol :: string
  uri :: string
  seller_fee_basis_points :: number
  creators :: "Creator list option"
  collection :: "Collection option"
  uses :: "Uses option"

definition initialize_discriminator :: bytes where
  "initialize_discriminator = [210, 225, 30, 162, 88, 184, 77, 141]"

definition creatorEncoder :: "Creator Encoder" where
  "creatorEncoder c = getStructEncoder
     [(''address'', getPublicKeyEncoder (Creator.address c)),
      (''verified'', getBooleanEncoder (Creator.verified c)),
      (''share'', getU8Encoder (Creator.share c))]"

definition collectionEncoder :: "Collection Encoder" where
  "collectionEncoder c = getStructEncoder
     [(''key'', getPublicKeyEncoder (Collection.key c)),
      (''verified'', getBooleanEncoder (Collection.verified c))]"

definition usesEncoder :: "Uses Encoder" where
  "usesEncoder u = getStructEncoder
     [(''use_method'', getU8Encoder (Uses.use_method u)),
      (''remaining'', getU64Encoder (Number (Uses.remaining u))),
      (''total'', getU64Encoder (Number (Uses.total u)))]"

definition initializeDataEncoder :: "InitializeData Encoder" where
  "initializeDataEncoder d = getStructEncoder
     [(''name'', getStringEncoder (InitializeData.name d)),
      (''symbol'', getStringEncoder (InitializeData.symbol d)),
      (''uri'', getStringEncoder (InitializeData.uri d)),
      (''seller_fee_basis_points'', getU16Encoder (InitializeData.seller_fee_basis_points d)),
      (''creators'', getOptionEncoder (getArrayEncoder creatorEncoder) (InitializeData.creators d)),
      (''collection'', getOptionEncoder collectionEncoder (InitializeData.collection d)),
      (''uses'', getOptionEncoder usesEncoder (InitializeData.uses d))]"

text \<open>The object literal passed to \<^verbatim>\<open>encode\<close>, after the destructuring defaults.\<close>

definition initializeData :: "InitializeInstructionArgs \<Rightarrow> InitializeData" where
  "initializeData args =
     (let creators = default_to [] (InitializeInstructionArgs.creators args);
          sellerFeeBasisPoints = default_to 0 (InitializeInstructionArgs.sellerFeeBasisPoints args);
          collection = default_to None (InitializeInstructionArgs.collection args);
          uses = default_to None (InitializeInstructionArgs.uses args)
      in \<lparr>InitializeData.name = InitializeInstructionArgs.name args,
          InitializeData.symbol = InitializeInstructionArgs.symbol args,
          InitializeData.uri = InitializeInstructionArgs.uri args,
          InitializeData.seller_fee_basis_points = sellerFeeBasisPoints,
          InitializeData.creators = (if length creators > 0 then Some creators else None),
          InitializeData.collection = collection,
          InitializeData.uses = uses\<rparr>)"

definition createInitializeInstruction ::
  "InitializeInstructionArgs \<Rightarrow> error + TransactionInstruction" where
  "createInitializeInstruction args =
     (let creators = default_to [] (InitializeInstructionArgs.creators args);
          collection = default_to None (InitializeInstructionArgs.collection args);
          creatorSigners =
            map (\<lambda>creator. \<lparr>isSigner = True, isWritable = False,
                            pubkey = Creator.address creator\<rparr>)
                (filter Creator.verified creators);
          collectionSigners =
            (case collection of
               None \<Rightarrow> []
             | Some c \<Rightarrow>
                 if Collection.verified c
                 then [\<lparr>isSigner = True, isWritable = False, pubkey = Collection.key c\<rparr>]
                 else [])
      in case getInstructionEncoder initialize_discriminator initializeDataEncoder
                (initializeData args) of
           Inl e \<Rightarrow> Inl e
         | Inr buffer \<Rightarrow>
             Inr \<lparr>TransactionInstruction.programId = InitializeInstructionArgs.programId args,
                  keys =
                    [\<lparr>isSigner = False, isWritable = True,
                      pubkey = InitializeInstructionArgs.metadata args\<rparr>,
                     \<lparr>isSigner = False, isWritable = False,
                      pubkey = InitializeInstructionArgs.updateAuthority args\<rparr>,
                     \<lparr>isSigner = False, isWritable = False,
                      pubkey = InitializeInstructionArgs.mint args\<rparr>,
                     \<lparr>isSigner = True, isWritable = False,
                      pubkey = InitializeInstructionArgs.mintAuthority args\<rparr>]
                    @ creatorSigners @ collectionSigners,
                  data = buffer\<rparr>)"

subsection \<open>UpdateField\<close>

text \<open>
  The field module (\<^verbatim>\<open>field.ts\<close>) is not among the sources. What the builder takes from it
  is a parameter here: \<open>getFieldCodec\<close>, the table of the variants of the tagged union,
  \<open>getFieldConfig\<close>, which turns the argument (a \<^verbatim>\<open>Field\<close> or a string) into a value of
  the union, and \<open>kind\<close>, which reads the kind of such a value. A model of the module
  itself follows further down.
\<close>

record 'fa UpdateFieldInstruction =
  programId :: PublicKey
  metadata :: PublicKey
  updateAuthority :: PublicKey
  field :: 'fa
  value' :: string

record 'fl UpdateFieldData =
  field :: 'fl
  value' :: string

definition update_field_discriminator :: bytes where
  "update_field_discriminator = [221, 233, 49, 45, 181, 202, 220, 200]"

definition updateFieldDataEncoder ::
  "('fl \<Rightarrow> string) \<Rightarrow> (string \<times> 'fl Encoder) list \<Rightarrow> 'fl UpdateFieldData Encoder" where
  "updateFieldDataEncoder kind getFieldCodec d = getStructEncoder
     [(''field'', getDataEnumEncoder kind getFieldCodec (UpdateFieldData.field d)),
      (''value'', getStringEncoder (UpdateFieldData.value' d))]"

definition updateFieldData ::
  "('fa \<Rightarrow> 'fl) \<Rightarrow> 'fa UpdateFieldInstruction \<Rightarrow> 'fl UpdateFieldData" where
  "updateFieldData getFieldConfig args =
     \<lparr>UpdateFieldData.field = getFieldConfig (UpdateFieldInstruction.field args),
      UpdateFieldData.value' = UpdateFieldInstruction.value' args\<rparr>"

definition createUpdateFieldInstruction ::
  "('fl \<Rightarrow> string) \<Rightarrow> (string \<times> 'fl Encoder) list \<Rightarrow> ('fa \<Rightarrow> 'fl) \<Rightarrow>
   'fa UpdateFieldInstruction \<Rightarrow> error + TransactionInstruction" where
  "createUpdateFieldInstruction kind getFieldCodec getFieldConfig args =
     (case getInstructionEncoder update_field_discriminator
             (updateFieldDataEncoder kind getFieldCodec)
             (updateFieldData getFieldConfig args) of
        Inl e \<Rightarrow> Inl e
      | Inr buffer \<Rightarrow>
          Inr \<lparr>TransactionInstruction.programId = UpdateFieldInstruction.programId args,
               keys =
                 [\<lparr>isSigner = False, isWritable = True,
                   pubkey = UpdateFieldInstruction.metadata args\<rparr>,
                  \<lparr>isSigner = True, isWritable = False,
                   pubkey = UpdateFieldInstruction.updateAuthority args\<rparr>],
               data = buffer\<rparr>)"

subsection \<open>RemoveKey\<close>

record RemoveKeyInstructionArgs =
  programId :: PublicKey
  metadata :: PublicKey
  updateAuthority :: PublicKey
  key :: string
  idempotent :: bool

record RemoveKeyData =
  idempotent :: bool
  key :: string

definition remove_key_discriminator :: bytes where
  "remove_key_discriminator = [234, 18, 32, 56, 89, 141, 37, 181]"

definition removeKeyDataEncoder :: "RemoveKeyData Encoder" where
  "removeKeyDataEncoder d = getStructEncoder
     [(''idempotent'', getBooleanEncoder (RemoveKeyData.idempotent d)),
      (''key'', getStringEncoder (RemoveKeyData.key d))]"

definition removeKeyData :: "RemoveKeyInstructionArgs \<Rightarrow> RemoveKeyData" where
  "removeKeyData args =
     \<lparr>RemoveKeyData.idempotent = RemoveKeyInstructionArgs.idempotent args,
      RemoveKeyData.key = RemoveKeyInstructionArgs.key args\<rparr>"

definition createRemoveKeyInstruction ::
  "RemoveKeyInstructionArgs \<Rightarrow> error + TransactionInstruction" where
  "createRemoveKeyInstruction args =
     (case getInstructionEncoder remove_key_discriminator removeKeyDataEncoder
             (removeKeyData args) of
        Inl e \<Rightarrow> Inl e
      | Inr buffer \<Rightarrow>
          Inr \<lparr>TransactionInstruction.programId = RemoveKeyInstructionArgs.programId args,
               keys =
                 [\<lparr>isSigner = False, isWritable = True,
                   pubkey = RemoveKeyInstructionArgs.metadata args\<rparr>,
                  \<lparr>isSigner = True, isWritable = False,
                   pubkey = RemoveKeyInstructionArgs.updateAuthority args\<rparr>],
               data = buffer\<rparr>)"

subsection \<open>UpdateAuthority\<close>

record UpdateAuthorityInstructionArgs =
  programId :: PublicKey
  metadata :: PublicKey
  oldAuthority :: PublicKey
  newAuthority :: "PublicKey option"

record UpdateAuthorityData =
  newAuthority :: PublicKey

definition update_authority_discriminator :: bytes where
  "update_authority_discriminator = [215, 228, 166, 228, 84, 100, 86, 123]"

definition updateAuthorityDataEncoder :: "UpdateAuthorityData Encoder" where
  "updateAuthorityDataEncoder d = getStructEncoder
     [(''newAuthority'', getPublicKeyEncoder (UpdateAuthorityData.newAuthority d))]"

text \<open>The operator \<^verbatim>\<open>??\<close> replaces \<^verbatim>\<open>null\<close> by its right operand.\<close>

definition updateAuthorityData :: "UpdateAuthorityInstructionArgs \<Rightarrow> UpdateAuthorityData" where
  "updateAuthorityData args =
     \<lparr>UpdateAuthorityData.newAuthority =
        (case UpdateAuthorityInstructionArgs.newAuthority args of
           None \<Rightarrow> SystemProgram_programId
         | Some k \<Rightarrow> k)\<rparr>"

definition createUpdateAuthorityInstruction ::
  "UpdateAuthorityInstructionArgs \<Rightarrow> error + TransactionInstruction" where
  "createUpdateAuthorityInstruction args =
     (case getInstructionEncoder update_authority_discriminator updateAuthorityDataEncoder
             (updateAuthorityData args) of
        Inl e \<Rightarrow> Inl e
      | Inr buffer \<Rightarrow>
          Inr \<lparr>TransactionInstruction.programId = UpdateAuthorityInstructionArgs.programId args,
               keys =
                 [\<lparr>isSigner = False, isWritable = True,
                   pubkey = UpdateAuthorityInstructionArgs.metadata args\<rparr>,
                  \<lparr>isSigner = True, isWritable = False,
                   pubkey = UpdateAuthorityInstructionArgs.oldAuthority args\<rparr>],
               data = buffer\<rparr>)"

subsection \<open>Emit\<close>

record EmitInstructionArgs =
  programId :: PublicKey
  metadata :: PublicKey
  start :: "int option"
  end' :: "int option"

record EmitData =
  start :: "int option"
  end' :: "int option"

definition emit_discriminator :: bytes where
  "emit_discriminator = [250, 166, 180, 250, 13, 12, 184, 70]"

text \<open>Both bounds are \<^verbatim>\<open>bigint\<close> values, which the u64 encoder takes as they are.\<close>

definition emitDataEncoder :: "EmitData Encoder" where
  "emitDataEncoder d = getStructEncoder
     [(''start'', getOptionEncoder (transformEncoder getU64Encoder BigInt) (EmitData.start d)),
      (''end'', getOptionEncoder (transformEncoder getU64Encoder BigInt) (EmitData.end' d))]"

text \<open>An omitted bound is \<^verbatim>\<open>undefined\<close>, which \<^verbatim>\<open>??\<close> turns into \<^verbatim>\<open>null\<close>.\<close>

definition emitData :: "EmitInstructionArgs \<Rightarrow> EmitData" where
  "emitData args =
     \<lparr>EmitData.start = (case EmitInstructionArgs.start args of None \<Rightarrow> None | Some v \<Rightarrow> Some v),
      EmitData.end' = (case EmitInstructionArgs.end' args of None \<Rightarrow> None | Some v \<Rightarrow> Some v)\<rparr>"

definition createEmitInstruction :: "EmitInstructionArgs \<Rightarrow> error + TransactionInstruction" where
  "createEmitInstruction args =
     (case getInstructionEncoder emit_discriminator emitDataEncoder (emitData args) of
        Inl e \<Rightarrow> Inl e
      | Inr buffer \<Rightarrow>
          Inr \<lparr>TransactionInstruction.programId = EmitInstructionArgs.programId args,
               keys =
                 [\<lparr>isSigner = False, isWritable = False,
                   pubkey = EmitInstructionArgs.metadata args\<rparr>],
               data = buffer\<rparr>)"

subsection \<open>The field module\<close>

text \<open>
  Modelled from the spec: the field module (\<^verbatim>\<open>field.ts\<close>), which is not among the sources.
  The spec describes the field of an update as a tagged union that is either a well-known
  variant or an arbitrary string key, encoded as the index of the variant followed by the
  variant's payload. It neither lists the well-known variants nor says how a plain string
  is converted. Both are taken here from the published field module of this client: the
  well-known fields are name, symbol and uri, a plain string that names one of them,
  capitalised or not, becomes that variant, and every other string becomes the string key.
\<close>

datatype Field = Name | Symbol | Uri

datatype FieldLayout = NameLayout | SymbolLayout | UriLayout | KeyLayout string

text \<open>The property \<^verbatim>\<open>__kind\<close> of a value of the union.\<close>

fun layoutKind :: "FieldLayout \<Rightarrow> string" where
  "layoutKind NameLayout = ''Name''"
| "layoutKind SymbolLayout = ''Symbol''"
| "layoutKind UriLayout = ''Uri''"
| "layoutKind (KeyLayout s) = ''Key''"

text \<open>
  Modelled from the spec: \<^verbatim>\<open>getFieldCodec\<close>, the table of variants. The three well-known
  variants have no payload; the string key is a struct holding the string.
\<close>

definition getUnitEncoder :: "'a Encoder" where
  "getUnitEncoder v = Inr []"

definition getFieldCodec :: "(string \<times> FieldLayout Encoder) list" where
  "getFieldCodec =
     [(''Name'', getUnitEncoder),
      (''Symbol'', getUnitEncoder),
      (''Uri'', getUnitEncoder),
      (''Key'', \<lambda>f. case f of
                   KeyLayout s \<Rightarrow> getStructEncoder [(''value'', getStringEncoder s)]
                 | _ \<Rightarrow> Inl (INVALID_DATA_ENUM_VARIANT (layoutKind f)))]"

text \<open>The builder's argument is \<^verbatim>\<open>Field | string\<close>.\<close>

datatype FieldArg = AsField Field | AsString string

text \<open>
  Modelled from the spec: \<^verbatim>\<open>getFieldConfig\<close>, which turns the argument into a value of the
  union, testing for the well-known fields in the order name, symbol, uri.
\<close>

fun getFieldConfig :: "FieldArg \<Rightarrow> FieldLayout" where
  "getFieldConfig (AsField Name) = NameLayout"
| "getFieldConfig (AsField Symbol) = SymbolLayout"
| "getFieldConfig (AsField Uri) = UriLayout"
| "getFieldConfig (AsString s) =
     (if s = ''Name'' \<or> s = ''name'' then NameLayout
      else if s = ''Symbol'' \<or> s = ''symbol'' then SymbolLayout
      else if s = ''Uri'' \<or> s = ''uri'' then UriLayout
      else KeyLayout s)"

subsection \<open>Concrete inputs\<close>

text \<open>Inputs on which the builders are evaluated below.\<close>

definition example_key :: "u8 \<Rightarrow> PublicKey" where
  "example_key b = PublicKey (replicate 32 b)"

definition example_initialize_args :: InitializeInstructionArgs where
  "example_initialize_args =
     \<lparr>InitializeInstructionArgs.metadata = example_key 1,
      mint = example_key 2,
      mintAuthority = example_key 3,
      name = ''Coin'',
      programId = example_key 0,
      symbol = ''CN'',
      updateAuthority = example_key 4,
      uri = ''x'',
      creators = Some
        [\<lparr>address = example_key 5, Creator.verified = True, share = 60\<rparr>,
         \<lparr>address = example_key 6, Creator.verified = False, share = 30\<rparr>,
         \<lparr>address = example_key 7, Creator.verified = True, share = 10\<rparr>],
      sellerFeeBasisPoints = Some 500,
      collection = Some (Some \<lparr>Collection.key = example_key 8, verified = True\<rparr>),
      uses = Some (Some \<lparr>use_method = 1, remaining = 3, total = 300\<rparr>)\<rparr>"

definition example_plain_initialize_args :: InitializeInstructionArgs where
  "example_plain_initialize_args =
     \<lparr>InitializeInstructionArgs.metadata = example_key 1,
      mint = example_key 2,
      mintAuthority = example_key 3,
      name = ''a'',
      programId = example_key 0,
      symbol = ''b'',
      updateAuthority = example_key 4,
      uri = ''c'',
      creators = None,
      sellerFeeBasisPoints = None,
      collection = None,
      uses = None\<rparr>"

text \<open>The same record with one creator whose share is the fraction 1.5.\<close>

definition example_fraction_initialize_args :: InitializeInstructionArgs where
  "example_fraction_initialize_args =
     example_plain_initialize_args
       \<lparr>InitializeInstructionArgs.creators :=
          Some [\<lparr>address = example_key 5, Creator.verified = False, share = 3 / 2\<rparr>]\<rparr>"

definition example_update_field_args :: "FieldArg UpdateFieldInstruction" where
  "example_update_field_args =
     \<lparr>UpdateFieldInstruction.programId = example_key 0,
      metadata = example_key 1,
      updateAuthority = example_key 4,
      field = AsString ''color'',
      value' = ''red''\<rparr>"

definition example_remove_key_args :: RemoveKeyInstructionArgs where
  "example_remove_key_args =
     \<lparr>RemoveKeyInstructionArgs.programId = example_key 0,
      metadata = example_key 1,
      updateAuthority = example_key 4,
      key = ''color'',
      idempotent = False\<rparr>"

definition example_update_authority_args :: UpdateAuthorityInstructionArgs where
  "example_update_authority_args =
     \<lparr>UpdateAuthorityInstructionArgs.programId = example_key 0,
      metadata = example_key 1,
      oldAuthority = example_key 4,
      newAuthority = Some (example_key 9)\<rparr>"

definition example_emit_args :: EmitInstructionArgs where
  "example_emit_args =
     \<lparr>EmitInstructionArgs.programId = example_key 0,
      metadata = example_key 1,
      start = None,
      end' = Some 258\<rparr>"

subsection \<open>Decoders: the inverse layouts\<close>

text \<open>
  The source holds no decoder. The round-trip property of the spec speaks of decoding a
  buffer with the inverse of the declared struct layout, so the decoders below follow the
  spec's wording of the wire contract, layout by layout: they are the reading counterpart
  of the encoders above and exist to state that property. A decoder reads a value from the
  front of the bytes and returns it with the bytes that are left, or \<open>None\<close> when the bytes
  do not hold a value.
\<close>

type_synonym 'a Decoder = "bytes \<Rightarrow> ('a \<times> bytes) option"

fun le_int :: "bytes \<Rightarrow> int" where
  "le_int [] = 0"
| "le_int (b # bs) = uint b + 256 * le_int bs"

definition numberDecoder :: "nat \<Rightarrow> int Decoder" where
  "numberDecoder sz bs =
     (if length bs < sz then None else Some (le_int (take sz bs), drop sz bs))"

definition getU8Decoder :: "int Decoder" where
  "getU8Decoder = numberDecoder 1"

definition getU16Decoder :: "int Decoder" where
  "getU16Decoder = numberDecoder 2"

definition getU32Decoder :: "int Decoder" where
  "getU32Decoder = numberDecoder 4"

definition getU64Decoder :: "int Decoder" where
  "getU64Decoder = numberDecoder 8"

definition getBooleanDecoder :: "bool Decoder" where
  "getBooleanDecoder bs =
     (case getU8Decoder bs of None \<Rightarrow> None | Some (v, rest) \<Rightarrow> Some (v = 1, rest))"

definition getPublicKeyDecoder :: "PublicKey Decoder" where
  "getPublicKeyDecoder bs =
     (if length bs < 32 then None else Some (PublicKey (take 32 bs), drop 32 bs))"

definition getStringDecoder :: "string Decoder" where
  "getStringDecoder bs =
     (case getU32Decoder bs of
        None \<Rightarrow> None
      | Some (n, rest) \<Rightarrow>
          if length rest < nat n then None
          else Some (map (\<lambda>b. char_of (unat b)) (take (nat n) rest), drop (nat n) rest))"

definition getOptionDecoder :: "'a Decoder \<Rightarrow> 'a option Decoder" where
  "getOptionDecoder item bs =
     (case getBooleanDecoder bs of
        None \<Rightarrow> None
      | Some (present, rest) \<Rightarrow>
          if present
          then (case item rest of None \<Rightarrow> None | Some (x, rest') \<Rightarrow> Some (Some x, rest'))
          else Some (None, rest))"

fun read_items :: "'a Decoder \<Rightarrow> nat \<Rightarrow> bytes \<Rightarrow> ('a list \<times> bytes) option" where
  "read_items item 0 bs = Some ([], bs)"
| "read_items item (Suc n) bs =
     (case item bs of
        None \<Rightarrow> None
      | Some (x, rest) \<Rightarrow>
          (case read_items item n rest of
             None \<Rightarrow> None
           | Some (xs, rest') \<Rightarrow> Some (x # xs, rest')))"

definition getArrayDecoder :: "'a Decoder \<Rightarrow> 'a list Decoder" where
  "getArrayDecoder item bs =
     (case getU32Decoder bs of None \<Rightarrow> None | Some (n, rest) \<Rightarrow> read_items item (nat n) rest)"

definition getDataEnumDecoder :: "(string \<times> 'v Decoder) list \<Rightarrow> 'v Decoder" where
  "getDataEnumDecoder variants bs =
     (case getU8Decoder bs of
        None \<Rightarrow> None
      | Some (discriminator, rest) \<Rightarrow>
          if nat discriminator < length variants
          then snd (variants ! nat discriminator) rest
          else None)"

definition creatorDecoder :: "Creator Decoder" where
  "creatorDecoder bs =
     (case getPublicKeyDecoder bs of None \<Rightarrow> None | Some (a, r1) \<Rightarrow>
      (case getBooleanDecoder r1 of None \<Rightarrow> None | Some (v, r2) \<Rightarrow>
       (case getU8Decoder r2 of None \<Rightarrow> None | Some (s, r3) \<Rightarrow>
          Some (\<lparr>address = a, Creator.verified = v, share = of_int s\<rparr>, r3))))"

definition collectionDecoder :: "Collection Decoder" where
  "collectionDecoder bs =
     (case getPublicKeyDecoder bs of None \<Rightarrow> None | Some (k, r1) \<Rightarrow>
      (case getBooleanDecoder r1 of None \<Rightarrow> None | Some (v, r2) \<Rightarrow>
         Some (\<lparr>Collection.key = k, verified = v\<rparr>, r2)))"

definition usesDecoder :: "Uses Decoder" where
  "usesDecoder bs =
     (case getU8Decoder bs of None \<Rightarrow> None | Some (m, r1) \<Rightarrow>
      (case getU64Decoder r1 of None \<Rightarrow> None | Some (r, r2) \<Rightarrow>
       (case getU64Decoder r2 of None \<Rightarrow> None | Some (t, r3) \<Rightarrow>
          Some (\<lparr>use_method = of_int m, remaining = of_int r, total = of_int t\<rparr>, r3))))"

definition initializeDataDecoder :: "InitializeData Decoder" where
  "initializeDataDecoder bs =
     (case getStringDecoder bs of None \<Rightarrow> None | Some (n, r1) \<Rightarrow>
      (case getStringDecoder r1 of None \<Rightarrow> None | Some (s, r2) \<Rightarrow>
       (case getStringDecoder r2 of None \<Rightarrow> None | Some (u, r3) \<Rightarrow>
        (case getU16Decoder r3 of None \<Rightarrow> None | Some (f, r4) \<Rightarrow>
         (case getOptionDecoder (getArrayDecoder creatorDecoder) r4 of
            None \<Rightarrow> None | Some (cs, r5) \<Rightarrow>
          (case getOptionDecoder collectionDecoder r5 of None \<Rightarrow> None | Some (c, r6) \<Rightarrow>
           (case getOptionDecoder usesDecoder r6 of None \<Rightarrow> None | Some (us, r7) \<Rightarrow>
              Some (\<lparr>InitializeData.name = n, symbol = s, uri = u,
                     seller_fee_basis_points = of_int f, creators = cs, collection = c,
                     uses = us\<rparr>, r7))))))))"

definition updateFieldDataDecoder ::
  "(string \<times> 'fl Decoder) list \<Rightarrow> 'fl UpdateFieldData Decoder" where
  "updateFieldDataDecoder variants bs =
     (case getDataEnumDecoder variants bs of None \<Rightarrow> None | Some (f, r1) \<Rightarrow>
      (case getStringDecoder r1 of None \<Rightarrow> None | Some (v, r2) \<Rightarrow>
         Some (\<lparr>UpdateFieldData.field = f, value' = v\<rparr>, r2)))"

definition removeKeyDataDecoder :: "RemoveKeyData Decoder" where
  "removeKeyDataDecoder bs =
     (case getBooleanDecoder bs of None \<Rightarrow> None | Some (i, r1) \<Rightarrow>
      (case getStringDecoder r1 of None \<Rightarrow> None | Some (k, r2) \<Rightarrow>
         Some (\<lparr>RemoveKeyData.idempotent = i, key = k\<rparr>, r2)))"

definition updateAuthorityDataDecoder :: "UpdateAuthorityData Decoder" where
  "updateAuthorityDataDecoder bs =
     (case getPublicKeyDecoder bs of None \<Rightarrow> None | Some (k, r1) \<Rightarrow>
        Some (\<lparr>UpdateAuthorityData.newAuthority = k\<rparr>, r1))"

definition emitDataDecoder :: "EmitData Decoder" where
  "emitDataDecoder bs =
     (case getOptionDecoder getU64Decoder bs of None \<Rightarrow> None | Some (s, r1) \<Rightarrow>
      (case getOptionDecoder getU64Decoder r1 of None \<Rightarrow> None | Some (e, r2) \<Rightarrow>
         Some (\<lparr>EmitData.start = s, end' = e\<rparr>, r2)))"

text \<open>
  A number that is an integer. The u8 and u16 encoders drop the fraction of any other
  number, so only an integer is read back as it was written.
\<close>

definition isInteger :: "number \<Rightarrow> bool" where
  "isInteger v \<longleftrightarrow> of_int \<lfloor>v\<rfloor> = v"

definition initializeDataIntegral :: "InitializeData \<Rightarrow> bool" where
  "initializeDataIntegral d \<longleftrightarrow>
     isInteger (InitializeData.seller_fee_basis_points d) \<and>
     (case InitializeData.creators d of
        None \<Rightarrow> True
      | Some cs \<Rightarrow> list_all (\<lambda>c. isInteger (Creator.share c)) cs) \<and>
     (case InitializeData.uses d of
        None \<Rightarrow> True
      | Some u \<Rightarrow> isInteger (Uses.use_method u))"

text \<open>The decoders of the variants of \<^term>\<open>getFieldCodec\<close>, in the same order.\<close>

definition getFieldDecoders :: "(string \<times> FieldLayout Decoder) list" where
  "getFieldDecoders =
     [(''Name'', \<lambda>bs. Some (NameLayout, bs)),
      (''Symbol'', \<lambda>bs. Some (SymbolLayout, bs)),
      (''Uri'', \<lambda>bs. Some (UriLayout, bs)),
      (''Key'',
       \<lambda>bs. case getStringDecoder bs of None \<Rightarrow> None | Some (s, r) \<Rightarrow> Some (KeyLayout s, r))]"

section \<open>Properties\<close>

subsection \<open>Facts about the primitives\<close>

lemma write_then_Inr_Inr [simp]: "write_then (Inr a) (Inr b) = Inr (a @ b)"
  by (simp add: write_then_def)

lemma write_then_Inl [simp]: "write_then (Inl e) r = Inl e"
  by (simp add: write_then_def)

lemma write_then_Inr_Inl [simp]: "write_then (Inr a) (Inl e) = Inl e"
  by (simp add: write_then_def)

lemma write_then_eq_Inr:
  "write_then r1 r2 = Inr bs \<longleftrightarrow> (\<exists>b1 b2. r1 = Inr b1 \<and> r2 = Inr b2 \<and> bs = b1 @ b2)"
  by (auto simp: write_then_def split: sum.splits)

lemma le_bytes_numeral:
  "le_bytes (numeral k) v = word_of_int v # le_bytes (pred_numeral k) (v div 256)"
  by (simp add: numeral_eq_Suc)

lemma length_le_bytes [simp]: "length (le_bytes n v) = n"
  by (induction n arbitrary: v) simp_all

lemma numberEncoderFactory_in_range:
  "lo \<le> v \<Longrightarrow> v \<le> hi \<Longrightarrow>
   numberEncoderFactory nm sz lo hi v = Inr (le_bytes sz \<lfloor>v\<rfloor>)"
  by (simp add: numberEncoderFactory_def)

lemma numberEncoderFactory_eq_Inr:
  "numberEncoderFactory nm sz lo hi v = Inr bs \<longleftrightarrow>
   lo \<le> v \<and> v \<le> hi \<and> bs = le_bytes sz \<lfloor>v\<rfloor>"
  by (auto simp: numberEncoderFactory_def)

lemmas number_encoder_defs =
  getU8Encoder_def getU16Encoder_def getU32Encoder_def getU64Encoder_def
  numberEncoderFactory_def

lemma length_toBytes [simp]: "length (toBytes k) = 32"
  using toBytes [of k] by simp

lemma toBytes_PublicKey [simp]: "length bs = 32 \<Longrightarrow> toBytes (PublicKey bs) = bs"
  by (simp add: PublicKey_inverse)

lemma getBooleanEncoder_eq [simp]: "getBooleanEncoder b = Inr [if b then 1 else 0]"
  by (simp add: getBooleanEncoder_def transformEncoder_def number_encoder_defs)

lemma getOptionEncoder_None [simp]: "getOptionEncoder item None = Inr [0]"
  by (simp add: getOptionEncoder_def)

lemma getOptionEncoder_Some [simp]:
  "getOptionEncoder item (Some x) = write_then (Inr [1]) (item x)"
  by (simp add: getOptionEncoder_def getTupleEncoder_def)

lemma getInstructionEncoder_eq:
  "getInstructionEncoder discriminator dataEncoder v =
     write_then (Inr discriminator) (dataEncoder v)"
  by (simp add: getInstructionEncoder_def transformEncoder_def getTupleEncoder_def
      getBytesEncoder_def)

lemma getInstructionEncoder_Inr:
  assumes "getInstructionEncoder discriminator dataEncoder v = Inr buffer"
    and "length discriminator = 8"
  shows "take 8 buffer = discriminator \<and> dataEncoder v = Inr (drop 8 buffer)"
  using assms by (auto simp: getInstructionEncoder_eq write_then_eq_Inr)

lemma getPublicKeyEncoder_eq: "getPublicKeyEncoder k = Inr (toBytes k)"
  by (simp add: getPublicKeyEncoder_def transformEncoder_def fixEncoderSize_def
      getBytesEncoder_def)

lemma getStringEncoder_eq:
  "getStringEncoder s = write_then (getU32Encoder (of_nat (length s))) (Inr (map of_char s))"
  by (simp add: getStringEncoder_def addEncoderSizePrefix_def getUtf8Encoder_def)

lemma getU32Encoder_length:
  "getU32Encoder (of_nat n) =
     (if n \<le> 4294967295 then Inr (le_bytes 4 (int n))
      else Inl (NUMBER_OUT_OF_RANGE ''u32'' (of_nat n)))"
proof -
  have "(of_nat n :: rat) \<le> 4294967295 \<longleftrightarrow> n \<le> 4294967295"
    using of_nat_le_iff [of n 4294967295, where ?'a = rat] by simp
  then show ?thesis
    by (auto simp: getU32Encoder_def numberEncoderFactory_def)
qed

lemma Inr_projr: "r = Inr x \<Longrightarrow> r = Inr (projr r)"
  by simp

text \<open>The unfoldings that evaluate a builder on a concrete input.\<close>

lemmas evaluation =
  createInitializeInstruction_def initializeData_def initializeDataEncoder_def
  createUpdateFieldInstruction_def updateFieldData_def updateFieldDataEncoder_def
  createRemoveKeyInstruction_def removeKeyData_def removeKeyDataEncoder_def
  createUpdateAuthorityInstruction_def updateAuthorityData_def updateAuthorityDataEncoder_def
  createEmitInstruction_def emitData_def emitDataEncoder_def
  creatorEncoder_def collectionEncoder_def usesEncoder_def
  initialize_discriminator_def update_field_discriminator_def remove_key_discriminator_def
  update_authority_discriminator_def emit_discriminator_def
  getInstructionEncoder_eq getStringEncoder_eq getPublicKeyEncoder_eq getArrayEncoder_def
  getDataEnumEncoder_def default_to_def number_encoder_defs le_bytes_numeral Let_def
  transformEncoder_def getFieldCodec_def getUnitEncoder_def
  example_key_def example_initialize_args_def
  example_update_field_args_def example_remove_key_args_def
  example_update_authority_args_def example_emit_args_def

lemma example_initialize_succeeds:
  "\<exists>i. createInitializeInstruction example_initialize_args = Inr i"
  by (simp add: evaluation)

lemma example_update_field_succeeds:
  "\<exists>i. createUpdateFieldInstruction layoutKind getFieldCodec getFieldConfig
         example_update_field_args = Inr i"
  by (simp add: evaluation)

lemma example_remove_key_succeeds:
  "\<exists>i. createRemoveKeyInstruction example_remove_key_args = Inr i"
  by (simp add: evaluation)

lemma example_update_authority_succeeds:
  "\<exists>i. createUpdateAuthorityInstruction example_update_authority_args = Inr i"
  by (simp add: evaluation)

lemma example_emit_succeeds:
  "\<exists>i. createEmitInstruction example_emit_args = Inr i"
  by (simp add: evaluation)

subsection \<open>Framing\<close>

lemma framing_initialize:
  assumes "createInitializeInstruction a = Inr i"
  shows "take 8 (data i) = [210, 225, 30, 162, 88, 184, 77, 141] \<and>
         initializeDataEncoder (initializeData a) = Inr (drop 8 (data i))"
proof -
  from assms obtain buffer where
    b: "getInstructionEncoder initialize_discriminator initializeDataEncoder
          (initializeData a) = Inr buffer"
    and d: "data i = buffer"
    by (auto simp: createInitializeInstruction_def Let_def split: sum.splits)
  have "length initialize_discriminator = 8"
    by (simp add: initialize_discriminator_def)
  from getInstructionEncoder_Inr [OF b this] d show ?thesis
    by (simp add: initialize_discriminator_def)
qed

lemma framing_update_field:
  assumes "createUpdateFieldInstruction kind codec config a = Inr i"
  shows "take 8 (data i) = [221, 233, 49, 45, 181, 202, 220, 200] \<and>
         updateFieldDataEncoder kind codec (updateFieldData config a) = Inr (drop 8 (data i))"
proof -
  from assms obtain buffer where
    b: "getInstructionEncoder update_field_discriminator (updateFieldDataEncoder kind codec)
          (updateFieldData config a) = Inr buffer"
    and d: "data i = buffer"
    by (auto simp: createUpdateFieldInstruction_def split: sum.splits)
  have "length update_field_discriminator = 8"
    by (simp add: update_field_discriminator_def)
  from getInstructionEncoder_Inr [OF b this] d show ?thesis
    by (simp add: update_field_discriminator_def)
qed

lemma framing_remove_key:
  assumes "createRemoveKeyInstruction a = Inr i"
  shows "take 8 (data i) = [234, 18, 32, 56, 89, 141, 37, 181] \<and>
         removeKeyDataEncoder (removeKeyData a) = Inr (drop 8 (data i))"
proof -
  from assms obtain buffer where
    b: "getInstructionEncoder remove_key_discriminator removeKeyDataEncoder
          (removeKeyData a) = Inr buffer"
    and d: "data i = buffer"
    by (auto simp: createRemoveKeyInstruction_def split: sum.splits)
  have "length remove_key_discriminator = 8"
    by (simp add: remove_key_discriminator_def)
  from getInstructionEncoder_Inr [OF b this] d show ?thesis
    by (simp add: remove_key_discriminator_def)
qed

lemma framing_update_authority:
  assumes "createUpdateAuthorityInstruction a = Inr i"
  shows "take 8 (data i) = [215, 228, 166, 228, 84, 100, 86, 123] \<and>
         updateAuthorityDataEncoder (updateAuthorityData a) = Inr (drop 8 (data i))"
proof -
  from assms obtain buffer where
    b: "getInstructionEncoder update_authority_discriminator updateAuthorityDataEncoder
          (updateAuthorityData a) = Inr buffer"
    and d: "data i = buffer"
    by (auto simp: createUpdateAuthorityInstruction_def split: sum.splits)
  have "length update_authority_discriminator = 8"
    by (simp add: update_authority_discriminator_def)
  from getInstructionEncoder_Inr [OF b this] d show ?thesis
    by (simp add: update_authority_discriminator_def)
qed

lemma framing_emit:
  assumes "createEmitInstruction a = Inr i"
  shows "take 8 (data i) = [250, 166, 180, 250, 13, 12, 184, 70] \<and>
         emitDataEncoder (emitData a) = Inr (drop 8 (data i))"
proof -
  from assms obtain buffer where
    b: "getInstructionEncoder emit_discriminator emitDataEncoder (emitData a) = Inr buffer"
    and d: "data i = buffer"
    by (auto simp: createEmitInstruction_def split: sum.splits)
  have "length emit_discriminator = 8"
    by (simp add: emit_discriminator_def)
  from getInstructionEncoder_Inr [OF b this] d show ?thesis
    by (simp add: emit_discriminator_def)
qed

text \<open>
  Claim C1. Whenever a builder produces an instruction, the first 8 bytes of its data are
  the literal discriminator of that instruction, and the bytes after them are exactly the
  struct encoding of the payload. For UpdateField this holds for every table of variants
  and every conversion of the field argument.
\<close>

theorem instruction_framing:
  "(createInitializeInstruction a1 = Inr i1 \<longrightarrow>
      take 8 (data i1) = [210, 225, 30, 162, 88, 184, 77, 141] \<and>
      initializeDataEncoder (initializeData a1) = Inr (drop 8 (data i1))) \<and>
   (createUpdateFieldInstruction kind codec config a2 = Inr i2 \<longrightarrow>
      take 8 (data i2) = [221, 233, 49, 45, 181, 202, 220, 200] \<and>
      updateFieldDataEncoder kind codec (updateFieldData config a2) = Inr (drop 8 (data i2))) \<and>
   (createRemoveKeyInstruction a3 = Inr i3 \<longrightarrow>
      take 8 (data i3) = [234, 18, 32, 56, 89, 141, 37, 181] \<and>
      removeKeyDataEncoder (removeKeyData a3) = Inr (drop 8 (data i3))) \<and>
   (createUpdateAuthorityInstruction a4 = Inr i4 \<longrightarrow>
      take 8 (data i4) = [215, 228, 166, 228, 84, 100, 86, 123] \<and>
      updateAuthorityDataEncoder (updateAuthorityData a4) = Inr (drop 8 (data i4))) \<and>
   (createEmitInstruction a5 = Inr i5 \<longrightarrow>
      take 8 (data i5) = [250, 166, 180, 250, 13, 12, 184, 70] \<and>
      emitDataEncoder (emitData a5) = Inr (drop 8 (data i5)))"
  using framing_initialize [of a1 i1] framing_update_field [of kind codec config a2 i2]
    framing_remove_key [of a3 i3] framing_update_authority [of a4 i4] framing_emit [of a5 i5]
  by blast

theorem instruction_framing_witness:
  "createInitializeInstruction example_initialize_args =
     Inr (projr (createInitializeInstruction example_initialize_args)) \<and>
   take 8 (data (projr (createInitializeInstruction example_initialize_args))) =
     [210, 225, 30, 162, 88, 184, 77, 141] \<and>
   createUpdateFieldInstruction layoutKind getFieldCodec getFieldConfig
       example_update_field_args =
     Inr (projr (createUpdateFieldInstruction layoutKind getFieldCodec
                   getFieldConfig example_update_field_args)) \<and>
   take 8 (data (projr (createUpdateFieldInstruction layoutKind getFieldCodec
                          getFieldConfig example_update_field_args))) =
     [221, 233, 49, 45, 181, 202, 220, 200] \<and>
   createRemoveKeyInstruction example_remove_key_args =
     Inr (projr (createRemoveKeyInstruction example_remove_key_args)) \<and>
   take 8 (data (projr (createRemoveKeyInstruction example_remove_key_args))) =
     [234, 18, 32, 56, 89, 141, 37, 181] \<and>
   createUpdateAuthorityInstruction example_update_authority_args =
     Inr (projr (createUpdateAuthorityInstruction example_update_authority_args)) \<and>
   take 8 (data (projr (createUpdateAuthorityInstruction example_update_authority_args))) =
     [215, 228, 166, 228, 84, 100, 86, 123] \<and>
   createEmitInstruction example_emit_args =
     Inr (projr (createEmitInstruction example_emit_args)) \<and>
   take 8 (data (projr (createEmitInstruction example_emit_args))) =
     [250, 166, 180, 250, 13, 12, 184, 70]"
proof -
  from example_initialize_succeeds
  have e1: "createInitializeInstruction example_initialize_args =
              Inr (projr (createInitializeInstruction example_initialize_args))"
    by (blast intro: Inr_projr)
  from example_update_field_succeeds
  have e2: "createUpdateFieldInstruction layoutKind getFieldCodec getFieldConfig
              example_update_field_args =
            Inr (projr (createUpdateFieldInstruction layoutKind getFieldCodec
                          getFieldConfig example_update_field_args))"
    by (blast intro: Inr_projr)
  from example_remove_key_succeeds
  have e3: "createRemoveKeyInstruction example_remove_key_args =
              Inr (projr (createRemoveKeyInstruction example_remove_key_args))"
    by (blast intro: Inr_projr)
  from example_update_authority_succeeds
  have e4: "createUpdateAuthorityInstruction example_update_authority_args =
              Inr (projr (createUpdateAuthorityInstruction example_update_authority_args))"
    by (blast intro: Inr_projr)
  from example_emit_succeeds
  have e5: "createEmitInstruction example_emit_args =
              Inr (projr (createEmitInstruction example_emit_args))"
    by (blast intro: Inr_projr)
  from instruction_framing
    [of example_initialize_args "projr (createInitializeInstruction example_initialize_args)"
        layoutKind getFieldCodec getFieldConfig example_update_field_args
        "projr (createUpdateFieldInstruction layoutKind getFieldCodec
                  getFieldConfig example_update_field_args)"
        example_remove_key_args "projr (createRemoveKeyInstruction example_remove_key_args)"
        example_update_authority_args
        "projr (createUpdateAuthorityInstruction example_update_authority_args)"
        example_emit_args "projr (createEmitInstruction example_emit_args)"]
    e1 e2 e3 e4 e5
  show ?thesis by blast
qed


subsection \<open>Initialize: the bytes of the payload\<close>

lemma initialize_buffer:
  assumes "createInitializeInstruction a = Inr i"
  shows "\<exists>n s u f cr c us.
     getStringEncoder (InitializeInstructionArgs.name a) = Inr n \<and>
     getStringEncoder (InitializeInstructionArgs.symbol a) = Inr s \<and>
     getStringEncoder (InitializeInstructionArgs.uri a) = Inr u \<and>
     getU16Encoder (InitializeData.seller_fee_basis_points (initializeData a)) = Inr f \<and>
     getOptionEncoder (getArrayEncoder creatorEncoder)
       (InitializeData.creators (initializeData a)) = Inr cr \<and>
     getOptionEncoder collectionEncoder (InitializeData.collection (initializeData a)) = Inr c \<and>
     getOptionEncoder usesEncoder (InitializeData.uses (initializeData a)) = Inr us \<and>
     data i = [210, 225, 30, 162, 88, 184, 77, 141] @ n @ s @ u @ f @ cr @ c @ us"
proof -
  from framing_initialize [OF assms]
  have t: "take 8 (data i) = [210, 225, 30, 162, 88, 184, 77, 141]"
    and e: "initializeDataEncoder (initializeData a) = Inr (drop 8 (data i))"
    by simp_all
  have nm: "InitializeData.name (initializeData a) = InitializeInstructionArgs.name a"
    "InitializeData.symbol (initializeData a) = InitializeInstructionArgs.symbol a"
    "InitializeData.uri (initializeData a) = InitializeInstructionArgs.uri a"
    by (simp_all add: initializeData_def Let_def)
  from e obtain n s u f cr c us where
    "getStringEncoder (InitializeData.name (initializeData a)) = Inr n"
    "getStringEncoder (InitializeData.symbol (initializeData a)) = Inr s"
    "getStringEncoder (InitializeData.uri (initializeData a)) = Inr u"
    "getU16Encoder (InitializeData.seller_fee_basis_points (initializeData a)) = Inr f"
    "getOptionEncoder (getArrayEncoder creatorEncoder)
       (InitializeData.creators (initializeData a)) = Inr cr"
    "getOptionEncoder collectionEncoder (InitializeData.collection (initializeData a)) = Inr c"
    "getOptionEncoder usesEncoder (InitializeData.uses (initializeData a)) = Inr us"
    "drop 8 (data i) = n @ s @ u @ f @ cr @ c @ us"
    unfolding initializeDataEncoder_def getStructEncoder.simps snd_conv write_then_eq_Inr
    by auto
  moreover have "data i = take 8 (data i) @ drop 8 (data i)" by simp
  ultimately show ?thesis
    unfolding nm t by metis
qed

subsection \<open>Initialize: the creators list\<close>

text \<open>
  Claim C2. Initialize with the empty creators list produces the same instruction, byte
  for byte, as Initialize with creators omitted. In the data of that instruction the
  creators field is the single presence byte 0, between the two bytes of the fee and the
  collection; a present list of length zero would be the five bytes 1, 0, 0, 0, 0.
\<close>

theorem initialize_empty_creators_absent:
  "createInitializeInstruction (a\<lparr>InitializeInstructionArgs.creators := Some []\<rparr>) =
     createInitializeInstruction (a\<lparr>InitializeInstructionArgs.creators := None\<rparr>) \<and>
   (createInitializeInstruction (a\<lparr>InitializeInstructionArgs.creators := Some []\<rparr>) = Inr i \<longrightarrow>
    (\<exists>n s u f c us.
       getStringEncoder (InitializeInstructionArgs.name a) = Inr n \<and>
       getStringEncoder (InitializeInstructionArgs.symbol a) = Inr s \<and>
       getStringEncoder (InitializeInstructionArgs.uri a) = Inr u \<and>
       getU16Encoder (case sellerFeeBasisPoints a of None \<Rightarrow> 0 | Some v \<Rightarrow> v) = Inr f \<and>
       getOptionEncoder collectionEncoder
         (case InitializeInstructionArgs.collection a of None \<Rightarrow> None | Some v \<Rightarrow> v) = Inr c \<and>
       getOptionEncoder usesEncoder
         (case InitializeInstructionArgs.uses a of None \<Rightarrow> None | Some v \<Rightarrow> v) = Inr us \<and>
       data i = [210, 225, 30, 162, 88, 184, 77, 141] @ n @ s @ u @ f @ [0] @ c @ us)) \<and>
   getOptionEncoder (getArrayEncoder creatorEncoder) (Some []) = Inr [1, 0, 0, 0, 0]"
proof (intro conjI impI)
  show "createInitializeInstruction (a\<lparr>InitializeInstructionArgs.creators := Some []\<rparr>) =
     createInitializeInstruction (a\<lparr>InitializeInstructionArgs.creators := None\<rparr>)"
    by (simp add: createInitializeInstruction_def initializeData_def default_to_def Let_def
        cong: sum.case_cong)
  show "getOptionEncoder (getArrayEncoder creatorEncoder) (Some []) = Inr [1, 0, 0, 0, 0]"
    by (simp add: getArrayEncoder_def number_encoder_defs le_bytes_numeral)
next
  let ?a = "a\<lparr>InitializeInstructionArgs.creators := Some []\<rparr>"
  assume "createInitializeInstruction ?a = Inr i"
  from initialize_buffer [OF this] obtain n s u f cr c us where
    n: "getStringEncoder (InitializeInstructionArgs.name ?a) = Inr n"
    and s: "getStringEncoder (InitializeInstructionArgs.symbol ?a) = Inr s"
    and u: "getStringEncoder (InitializeInstructionArgs.uri ?a) = Inr u"
    and f: "getU16Encoder (InitializeData.seller_fee_basis_points (initializeData ?a)) = Inr f"
    and cr: "getOptionEncoder (getArrayEncoder creatorEncoder)
               (InitializeData.creators (initializeData ?a)) = Inr cr"
    and c: "getOptionEncoder collectionEncoder
              (InitializeData.collection (initializeData ?a)) = Inr c"
    and us: "getOptionEncoder usesEncoder (InitializeData.uses (initializeData ?a)) = Inr us"
    and d: "data i = [210, 225, 30, 162, 88, 184, 77, 141] @ n @ s @ u @ f @ cr @ c @ us"
    by blast
  have "InitializeData.creators (initializeData ?a) = None"
    by (simp add: initializeData_def default_to_def)
  with cr have "cr = [0]" by simp
  with n s u f c us d
  show "\<exists>n s u f c us.
       getStringEncoder (InitializeInstructionArgs.name a) = Inr n \<and>
       getStringEncoder (InitializeInstructionArgs.symbol a) = Inr s \<and>
       getStringEncoder (InitializeInstructionArgs.uri a) = Inr u \<and>
       getU16Encoder (case sellerFeeBasisPoints a of None \<Rightarrow> 0 | Some v \<Rightarrow> v) = Inr f \<and>
       getOptionEncoder collectionEncoder
         (case InitializeInstructionArgs.collection a of None \<Rightarrow> None | Some v \<Rightarrow> v) = Inr c \<and>
       getOptionEncoder usesEncoder
         (case InitializeInstructionArgs.uses a of None \<Rightarrow> None | Some v \<Rightarrow> v) = Inr us \<and>
       data i = [210, 225, 30, 162, 88, 184, 77, 141] @ n @ s @ u @ f @ [0] @ c @ us"
    by (simp add: initializeData_def default_to_def Let_def)
qed

theorem initialize_empty_creators_absent_witness:
  "createInitializeInstruction
     (example_plain_initialize_args\<lparr>InitializeInstructionArgs.creators := Some []\<rparr>) =
   Inr \<lparr>TransactionInstruction.programId = example_key 0,
        keys = [\<lparr>isSigner = False, isWritable = True, pubkey = example_key 1\<rparr>,
                \<lparr>isSigner = False, isWritable = False, pubkey = example_key 4\<rparr>,
                \<lparr>isSigner = False, isWritable = False, pubkey = example_key 2\<rparr>,
                \<lparr>isSigner = True, isWritable = False, pubkey = example_key 3\<rparr>],
        data = [210, 225, 30, 162, 88, 184, 77, 141] @ [1, 0, 0, 0, 97] @ [1, 0, 0, 0, 98] @
               [1, 0, 0, 0, 99] @ [0, 0] @ [0] @ [0] @ [0]\<rparr>"
  using initialize_empty_creators_absent [of example_plain_initialize_args]
  by (simp add: evaluation example_plain_initialize_args_def)

subsection \<open>Initialize: the account list\<close>

text \<open>
  Claim C3. When Initialize produces an instruction, its account list is, in order:
  metadata (writable, not a signer), updateAuthority, mint, mintAuthority (signer), then
  one read-only signer entry for each creator with \<open>verified\<close> set, in the order of the
  creators list, then a read-only signer entry for the collection key when a collection
  with \<open>verified\<close> set is supplied. Creators and a collection that are not verified add no
  entry: the length of the list counts the verified ones only.
\<close>

theorem initialize_account_keys:
  assumes "createInitializeInstruction a = Inr i"
  shows "keys i =
     [\<lparr>isSigner = False, isWritable = True, pubkey = InitializeInstructionArgs.metadata a\<rparr>,
      \<lparr>isSigner = False, isWritable = False,
       pubkey = InitializeInstructionArgs.updateAuthority a\<rparr>,
      \<lparr>isSigner = False, isWritable = False, pubkey = InitializeInstructionArgs.mint a\<rparr>,
      \<lparr>isSigner = True, isWritable = False,
       pubkey = InitializeInstructionArgs.mintAuthority a\<rparr>]
     @ map (\<lambda>c. \<lparr>isSigner = True, isWritable = False, pubkey = Creator.address c\<rparr>)
         (filter Creator.verified
           (case InitializeInstructionArgs.creators a of None \<Rightarrow> [] | Some cs \<Rightarrow> cs))
     @ (case InitializeInstructionArgs.collection a of
          Some (Some c) \<Rightarrow>
            if Collection.verified c
            then [\<lparr>isSigner = True, isWritable = False, pubkey = Collection.key c\<rparr>]
            else []
        | _ \<Rightarrow> [])
   \<and> length (keys i) =
       4 + length (filter Creator.verified
                    (case InitializeInstructionArgs.creators a of None \<Rightarrow> [] | Some cs \<Rightarrow> cs))
         + (case InitializeInstructionArgs.collection a of
              Some (Some c) \<Rightarrow> if Collection.verified c then 1 else 0
            | _ \<Rightarrow> 0)"
proof -
  from assms obtain buffer where i: "i =
     \<lparr>TransactionInstruction.programId = InitializeInstructionArgs.programId a,
      keys =
        [\<lparr>isSigner = False, isWritable = True, pubkey = InitializeInstructionArgs.metadata a\<rparr>,
         \<lparr>isSigner = False, isWritable = False,
          pubkey = InitializeInstructionArgs.updateAuthority a\<rparr>,
         \<lparr>isSigner = False, isWritable = False, pubkey = InitializeInstructionArgs.mint a\<rparr>,
         \<lparr>isSigner = True, isWritable = False,
          pubkey = InitializeInstructionArgs.mintAuthority a\<rparr>]
        @ map (\<lambda>c. \<lparr>isSigner = True, isWritable = False, pubkey = Creator.address c\<rparr>)
            (filter Creator.verified (default_to [] (InitializeInstructionArgs.creators a)))
        @ (case default_to None (InitializeInstructionArgs.collection a) of
             None \<Rightarrow> []
           | Some c \<Rightarrow>
               if Collection.verified c
               then [\<lparr>isSigner = True, isWritable = False, pubkey = Collection.key c\<rparr>]
               else []),
      data = buffer\<rparr>"
    by (auto simp: createInitializeInstruction_def Let_def split: sum.splits)
  show ?thesis
    unfolding i by (simp add: default_to_def split: option.splits)
qed

theorem initialize_account_keys_witness:
  "createInitializeInstruction example_initialize_args =
     Inr (projr (createInitializeInstruction example_initialize_args)) \<and>
   keys (projr (createInitializeInstruction example_initialize_args)) =
     [\<lparr>isSigner = False, isWritable = True, pubkey = example_key 1\<rparr>,
      \<lparr>isSigner = False, isWritable = False, pubkey = example_key 4\<rparr>,
      \<lparr>isSigner = False, isWritable = False, pubkey = example_key 2\<rparr>,
      \<lparr>isSigner = True, isWritable = False, pubkey = example_key 3\<rparr>,
      \<lparr>isSigner = True, isWritable = False, pubkey = example_key 5\<rparr>,
      \<lparr>isSigner = True, isWritable = False, pubkey = example_key 7\<rparr>,
      \<lparr>isSigner = True, isWritable = False, pubkey = example_key 8\<rparr>]"
proof -
  from example_initialize_succeeds
  have e: "createInitializeInstruction example_initialize_args =
             Inr (projr (createInitializeInstruction example_initialize_args))"
    by (blast intro: Inr_projr)
  from initialize_account_keys [OF e]
  have "keys (projr (createInitializeInstruction example_initialize_args)) =
     [\<lparr>isSigner = False, isWritable = True, pubkey = example_key 1\<rparr>,
      \<lparr>isSigner = False, isWritable = False, pubkey = example_key 4\<rparr>,
      \<lparr>isSigner = False, isWritable = False, pubkey = example_key 2\<rparr>,
      \<lparr>isSigner = True, isWritable = False, pubkey = example_key 3\<rparr>,
      \<lparr>isSigner = True, isWritable = False, pubkey = example_key 5\<rparr>,
      \<lparr>isSigner = True, isWritable = False, pubkey = example_key 7\<rparr>,
      \<lparr>isSigner = True, isWritable = False, pubkey = example_key 8\<rparr>]"
    by (simp add: example_initialize_args_def)
  with e show ?thesis by blast
qed

subsection \<open>UpdateAuthority: the sentinel key\<close>

text \<open>
  Claim C4. With no new authority, UpdateAuthority writes after the discriminator exactly
  the 32 bytes of the system program's key, which are all zero, and no presence byte. With
  a new authority it writes the 32 bytes of that key instead.
\<close>

theorem update_authority_sentinel:
  "createUpdateAuthorityInstruction (a\<lparr>UpdateAuthorityInstructionArgs.newAuthority := None\<rparr>) =
     Inr \<lparr>TransactionInstruction.programId = UpdateAuthorityInstructionArgs.programId a,
          keys = [\<lparr>isSigner = False, isWritable = True,
                   pubkey = UpdateAuthorityInstructionArgs.metadata a\<rparr>,
                  \<lparr>isSigner = True, isWritable = False,
                   pubkey = UpdateAuthorityInstructionArgs.oldAuthority a\<rparr>],
          data = [215, 228, 166, 228, 84, 100, 86, 123] @ replicate 32 0\<rparr> \<and>
   toBytes SystemProgram_programId = replicate 32 0 \<and>
   createUpdateAuthorityInstruction
       (a\<lparr>UpdateAuthorityInstructionArgs.newAuthority := Some k\<rparr>) =
     Inr \<lparr>TransactionInstruction.programId = UpdateAuthorityInstructionArgs.programId a,
          keys = [\<lparr>isSigner = False, isWritable = True,
                   pubkey = UpdateAuthorityInstructionArgs.metadata a\<rparr>,
                  \<lparr>isSigner = True, isWritable = False,
                   pubkey = UpdateAuthorityInstructionArgs.oldAuthority a\<rparr>],
          data = [215, 228, 166, 228, 84, 100, 86, 123] @ toBytes k\<rparr> \<and>
   length (toBytes k) = 32"
  by (simp add: createUpdateAuthorityInstruction_def updateAuthorityData_def
      updateAuthorityDataEncoder_def getInstructionEncoder_eq getPublicKeyEncoder_eq
      update_authority_discriminator_def SystemProgram_programId_def)

theorem update_authority_sentinel_witness:
  "createUpdateAuthorityInstruction example_update_authority_args =
   Inr \<lparr>TransactionInstruction.programId = example_key 0,
        keys = [\<lparr>isSigner = False, isWritable = True, pubkey = example_key 1\<rparr>,
                \<lparr>isSigner = True, isWritable = False, pubkey = example_key 4\<rparr>],
        data = [215, 228, 166, 228, 84, 100, 86, 123] @ replicate 32 9\<rparr>"
  using update_authority_sentinel
    [where k = "example_key 9" and a = example_update_authority_args]
  by (simp add: example_key_def example_update_authority_args_def)

subsection \<open>RemoveKey: the example of the spec\<close>

text \<open>
  Claim C5. RemoveKey with key "my-key" and idempotent true produces the RemoveKey
  discriminator, then the byte 1, then the length 6 as a little-endian u32, then the six
  UTF-8 bytes of the key.
\<close>

theorem remove_key_example:
  "createRemoveKeyInstruction
     \<lparr>RemoveKeyInstructionArgs.programId = p, metadata = m, updateAuthority = u,
      key = ''my-key'', idempotent = True\<rparr> =
   Inr \<lparr>TransactionInstruction.programId = p,
        keys = [\<lparr>isSigner = False, isWritable = True, pubkey = m\<rparr>,
                \<lparr>isSigner = True, isWritable = False, pubkey = u\<rparr>],
        data = [234, 18, 32, 56, 89, 141, 37, 181] @ [1] @ [6, 0, 0, 0] @
               [109, 121, 45, 107, 101, 121]\<rparr> \<and>
   map of_char ''my-key'' = [109, 121, 45, 107, 101, (121 :: u8)]"
  by (simp add: createRemoveKeyInstruction_def removeKeyData_def removeKeyDataEncoder_def
      getInstructionEncoder_eq getStringEncoder_eq remove_key_discriminator_def
      number_encoder_defs le_bytes_numeral)

subsection \<open>Emit: the two optional bounds\<close>

lemma getU64Encoder_BigInt:
  "0 \<le> v \<Longrightarrow> v \<le> 18446744073709551615 \<Longrightarrow>
   getU64Encoder (BigInt v) = Inr (le_bytes 8 v)"
proof -
  assume v: "0 \<le> v" "v \<le> 18446744073709551615"
  then have "(of_int v :: rat) \<le> of_int 18446744073709551615"
    by (simp only: of_int_le_iff)
  with v show ?thesis
    by (simp add: getU64Encoder_def Let_def)
qed

lemma optional_u64:
  assumes "case s of None \<Rightarrow> True | Some v \<Rightarrow> 0 \<le> v \<and> v \<le> 18446744073709551615"
  shows "getOptionEncoder (transformEncoder getU64Encoder BigInt) s =
           Inr (case s of None \<Rightarrow> [0] | Some v \<Rightarrow> 1 # le_bytes 8 v)"
proof (cases s)
  case None
  then show ?thesis by simp
next
  case (Some v)
  with assms have "getU64Encoder (BigInt v) = Inr (le_bytes 8 v)"
    by (simp add: getU64Encoder_BigInt)
  with Some show ?thesis by (simp add: transformEncoder_def)
qed

lemma emit_general:
  assumes "case s of None \<Rightarrow> True | Some v \<Rightarrow> 0 \<le> v \<and> v \<le> 18446744073709551615"
    and "case e of None \<Rightarrow> True | Some v \<Rightarrow> 0 \<le> v \<and> v \<le> 18446744073709551615"
  shows "createEmitInstruction
      \<lparr>EmitInstructionArgs.programId = p, metadata = m, start = s, end' = e\<rparr> =
    Inr \<lparr>TransactionInstruction.programId = p,
         keys = [\<lparr>isSigner = False, isWritable = False, pubkey = m\<rparr>],
         data = [250, 166, 180, 250, 13, 12, 184, 70]
                @ (case s of None \<Rightarrow> [0] | Some v \<Rightarrow> 1 # le_bytes 8 v)
                @ (case e of None \<Rightarrow> [0] | Some v \<Rightarrow> 1 # le_bytes 8 v)\<rparr>"
proof -
  have d: "emitData \<lparr>EmitInstructionArgs.programId = p, metadata = m, start = s, end' = e\<rparr> =
           \<lparr>EmitData.start = s, end' = e\<rparr>"
    by (simp add: emitData_def split: option.splits)
  show ?thesis
    by (simp add: createEmitInstruction_def d emitDataEncoder_def getInstructionEncoder_eq
        emit_discriminator_def optional_u64 [OF assms(1)] optional_u64 [OF assms(2)])
qed

text \<open>
  Claim C6. Emit with start 5 and end omitted produces, after the Emit discriminator, the
  bytes 1, 5, 0, 0, 0, 0, 0, 0, 0, 0. In general each of start and end is written on its
  own: the byte 0 when it is omitted, the byte 1 and the little-endian u64 when it is
  given (and fits a u64).
\<close>

theorem emit_optional_bounds:
  "createEmitInstruction
     \<lparr>EmitInstructionArgs.programId = p, metadata = m, start = Some 5, end' = None\<rparr> =
   Inr \<lparr>TransactionInstruction.programId = p,
        keys = [\<lparr>isSigner = False, isWritable = False, pubkey = m\<rparr>],
        data = [250, 166, 180, 250, 13, 12, 184, 70] @ [1, 5, 0, 0, 0, 0, 0, 0, 0, 0]\<rparr> \<and>
   ((case s of None \<Rightarrow> True | Some v \<Rightarrow> 0 \<le> v \<and> v \<le> 18446744073709551615) \<and>
    (case e of None \<Rightarrow> True | Some v \<Rightarrow> 0 \<le> v \<and> v \<le> 18446744073709551615) \<longrightarrow>
    createEmitInstruction
      \<lparr>EmitInstructionArgs.programId = p, metadata = m, start = s, end' = e\<rparr> =
    Inr \<lparr>TransactionInstruction.programId = p,
         keys = [\<lparr>isSigner = False, isWritable = False, pubkey = m\<rparr>],
         data = [250, 166, 180, 250, 13, 12, 184, 70]
                @ (case s of None \<Rightarrow> [0] | Some v \<Rightarrow> 1 # le_bytes 8 v)
                @ (case e of None \<Rightarrow> [0] | Some v \<Rightarrow> 1 # le_bytes 8 v)\<rparr>)"
proof (intro conjI impI)
  have "createEmitInstruction
     \<lparr>EmitInstructionArgs.programId = p, metadata = m, start = Some 5, end' = None\<rparr> =
   Inr \<lparr>TransactionInstruction.programId = p,
        keys = [\<lparr>isSigner = False, isWritable = False, pubkey = m\<rparr>],
        data = [250, 166, 180, 250, 13, 12, 184, 70]
                @ (case Some (5 :: int) of None \<Rightarrow> [0] | Some v \<Rightarrow> 1 # le_bytes 8 v)
                @ (case (None :: int option) of None \<Rightarrow> [0] | Some v \<Rightarrow> 1 # le_bytes 8 v)\<rparr>"
    by (rule emit_general) simp_all
  then show "createEmitInstruction
     \<lparr>EmitInstructionArgs.programId = p, metadata = m, start = Some 5, end' = None\<rparr> =
   Inr \<lparr>TransactionInstruction.programId = p,
        keys = [\<lparr>isSigner = False, isWritable = False, pubkey = m\<rparr>],
        data = [250, 166, 180, 250, 13, 12, 184, 70] @ [1, 5, 0, 0, 0, 0, 0, 0, 0, 0]\<rparr>"
    by (simp add: le_bytes_numeral)
next
  assume "(case s of None \<Rightarrow> True | Some v \<Rightarrow> 0 \<le> v \<and> v \<le> 18446744073709551615) \<and>
    (case e of None \<Rightarrow> True | Some v \<Rightarrow> 0 \<le> v \<and> v \<le> 18446744073709551615)"
  then show "createEmitInstruction
      \<lparr>EmitInstructionArgs.programId = p, metadata = m, start = s, end' = e\<rparr> =
    Inr \<lparr>TransactionInstruction.programId = p,
         keys = [\<lparr>isSigner = False, isWritable = False, pubkey = m\<rparr>],
         data = [250, 166, 180, 250, 13, 12, 184, 70]
                @ (case s of None \<Rightarrow> [0] | Some v \<Rightarrow> 1 # le_bytes 8 v)
                @ (case e of None \<Rightarrow> [0] | Some v \<Rightarrow> 1 # le_bytes 8 v)\<rparr>"
    by (intro emit_general) simp_all
qed

theorem emit_optional_bounds_witness:
  "createEmitInstruction example_emit_args =
   Inr \<lparr>TransactionInstruction.programId = example_key 0,
        keys = [\<lparr>isSigner = False, isWritable = False, pubkey = example_key 1\<rparr>],
        data = [250, 166, 180, 250, 13, 12, 184, 70, 0, 1, 2, 1, 0, 0, 0, 0, 0, 0]\<rparr>"
  using emit_optional_bounds [of "example_key 0" "example_key 1" None "Some 258"]
  by (simp add: example_emit_args_def le_bytes_numeral)


subsection \<open>Public keys\<close>


subsection \<open>Initialize: omitted properties\<close>

text \<open>
  Claim C9. Omitting sellerFeeBasisPoints, collection or uses from the Initialize
  arguments gives the same instruction as passing 0, null and null. In the data of that
  instruction an omitted fee is the two bytes 0, 0 after the three strings, an omitted
  collection is the single presence byte 0 after the creators, and an omitted uses is the
  single presence byte 0 at the end.
\<close>

theorem initialize_omitted_defaults:
  "createInitializeInstruction (a\<lparr>sellerFeeBasisPoints := None\<rparr>) =
     createInitializeInstruction (a\<lparr>sellerFeeBasisPoints := Some 0\<rparr>) \<and>
   createInitializeInstruction (a\<lparr>InitializeInstructionArgs.collection := None\<rparr>) =
     createInitializeInstruction (a\<lparr>InitializeInstructionArgs.collection := Some None\<rparr>) \<and>
   createInitializeInstruction (a\<lparr>InitializeInstructionArgs.uses := None\<rparr>) =
     createInitializeInstruction (a\<lparr>InitializeInstructionArgs.uses := Some None\<rparr>) \<and>
   createInitializeInstruction
     (a\<lparr>sellerFeeBasisPoints := None, InitializeInstructionArgs.collection := None,
        InitializeInstructionArgs.uses := None\<rparr>) =
     createInitializeInstruction
       (a\<lparr>sellerFeeBasisPoints := Some 0, InitializeInstructionArgs.collection := Some None,
          InitializeInstructionArgs.uses := Some None\<rparr>) \<and>
   (createInitializeInstruction (a\<lparr>sellerFeeBasisPoints := None\<rparr>) = Inr i1 \<longrightarrow>
    (\<exists>n s u cr c us.
       getStringEncoder (InitializeInstructionArgs.name a) = Inr n \<and>
       getStringEncoder (InitializeInstructionArgs.symbol a) = Inr s \<and>
       getStringEncoder (InitializeInstructionArgs.uri a) = Inr u \<and>
       getOptionEncoder (getArrayEncoder creatorEncoder)
         (InitializeData.creators (initializeData a)) = Inr cr \<and>
       getOptionEncoder collectionEncoder
         (InitializeData.collection (initializeData a)) = Inr c \<and>
       getOptionEncoder usesEncoder (InitializeData.uses (initializeData a)) = Inr us \<and>
       data i1 = [210, 225, 30, 162, 88, 184, 77, 141] @ n @ s @ u @ [0, 0] @ cr @ c @ us)) \<and>
   (createInitializeInstruction (a\<lparr>InitializeInstructionArgs.collection := None\<rparr>) = Inr i2 \<longrightarrow>
    (\<exists>n s u f cr us.
       getStringEncoder (InitializeInstructionArgs.name a) = Inr n \<and>
       getStringEncoder (InitializeInstructionArgs.symbol a) = Inr s \<and>
       getStringEncoder (InitializeInstructionArgs.uri a) = Inr u \<and>
       getU16Encoder (InitializeData.seller_fee_basis_points (initializeData a)) = Inr f \<and>
       getOptionEncoder (getArrayEncoder creatorEncoder)
         (InitializeData.creators (initializeData a)) = Inr cr \<and>
       getOptionEncoder usesEncoder (InitializeData.uses (initializeData a)) = Inr us \<and>
       data i2 = [210, 225, 30, 162, 88, 184, 77, 141] @ n @ s @ u @ f @ cr @ [0] @ us)) \<and>
   (createInitializeInstruction (a\<lparr>InitializeInstructionArgs.uses := None\<rparr>) = Inr i3 \<longrightarrow>
    (\<exists>n s u f cr c.
       getStringEncoder (InitializeInstructionArgs.name a) = Inr n \<and>
       getStringEncoder (InitializeInstructionArgs.symbol a) = Inr s \<and>
       getStringEncoder (InitializeInstructionArgs.uri a) = Inr u \<and>
       getU16Encoder (InitializeData.seller_fee_basis_points (initializeData a)) = Inr f \<and>
       getOptionEncoder (getArrayEncoder creatorEncoder)
         (InitializeData.creators (initializeData a)) = Inr cr \<and>
       getOptionEncoder collectionEncoder
         (InitializeData.collection (initializeData a)) = Inr c \<and>
       data i3 = [210, 225, 30, 162, 88, 184, 77, 141] @ n @ s @ u @ f @ cr @ c @ [0]))"
proof (intro conjI impI)
  show "createInitializeInstruction (a\<lparr>sellerFeeBasisPoints := None\<rparr>) =
     createInitializeInstruction (a\<lparr>sellerFeeBasisPoints := Some 0\<rparr>)"
    by (simp add: createInitializeInstruction_def initializeData_def default_to_def Let_def
        cong: sum.case_cong)
  show "createInitializeInstruction (a\<lparr>InitializeInstructionArgs.collection := None\<rparr>) =
     createInitializeInstruction (a\<lparr>InitializeInstructionArgs.collection := Some None\<rparr>)"
    by (simp add: createInitializeInstruction_def initializeData_def default_to_def Let_def
        cong: sum.case_cong)
  show "createInitializeInstruction (a\<lparr>InitializeInstructionArgs.uses := None\<rparr>) =
     createInitializeInstruction (a\<lparr>InitializeInstructionArgs.uses := Some None\<rparr>)"
    by (simp add: createInitializeInstruction_def initializeData_def default_to_def Let_def
        cong: sum.case_cong)
  show "createInitializeInstruction
     (a\<lparr>sellerFeeBasisPoints := None, InitializeInstructionArgs.collection := None,
        InitializeInstructionArgs.uses := None\<rparr>) =
     createInitializeInstruction
       (a\<lparr>sellerFeeBasisPoints := Some 0, InitializeInstructionArgs.collection := Some None,
          InitializeInstructionArgs.uses := Some None\<rparr>)"
    by (simp add: createInitializeInstruction_def initializeData_def default_to_def Let_def
        cong: sum.case_cong)
next
  let ?a = "a\<lparr>sellerFeeBasisPoints := None\<rparr>"
  assume "createInitializeInstruction ?a = Inr i1"
  from initialize_buffer [OF this] obtain n s u f cr c us where
    h: "getStringEncoder (InitializeInstructionArgs.name ?a) = Inr n"
      "getStringEncoder (InitializeInstructionArgs.symbol ?a) = Inr s"
      "getStringEncoder (InitializeInstructionArgs.uri ?a) = Inr u"
      "getOptionEncoder (getArrayEncoder creatorEncoder)
         (InitializeData.creators (initializeData ?a)) = Inr cr"
      "getOptionEncoder collectionEncoder
         (InitializeData.collection (initializeData ?a)) = Inr c"
      "getOptionEncoder usesEncoder (InitializeData.uses (initializeData ?a)) = Inr us"
    and f: "getU16Encoder (InitializeData.seller_fee_basis_points (initializeData ?a)) = Inr f"
    and d: "data i1 = [210, 225, 30, 162, 88, 184, 77, 141] @ n @ s @ u @ f @ cr @ c @ us"
    by blast
  have "InitializeData.seller_fee_basis_points (initializeData ?a) = 0"
    by (simp add: initializeData_def default_to_def Let_def)
  with f have "f = [0, 0]"
    by (simp add: number_encoder_defs le_bytes_numeral)
  with h d
  show "\<exists>n s u cr c us.
       getStringEncoder (InitializeInstructionArgs.name a) = Inr n \<and>
       getStringEncoder (InitializeInstructionArgs.symbol a) = Inr s \<and>
       getStringEncoder (InitializeInstructionArgs.uri a) = Inr u \<and>
       getOptionEncoder (getArrayEncoder creatorEncoder)
         (InitializeData.creators (initializeData a)) = Inr cr \<and>
       getOptionEncoder collectionEncoder
         (InitializeData.collection (initializeData a)) = Inr c \<and>
       getOptionEncoder usesEncoder (InitializeData.uses (initializeData a)) = Inr us \<and>
       data i1 = [210, 225, 30, 162, 88, 184, 77, 141] @ n @ s @ u @ [0, 0] @ cr @ c @ us"
    by (simp add: initializeData_def Let_def)
next
  let ?a = "a\<lparr>InitializeInstructionArgs.collection := None\<rparr>"
  assume "createInitializeInstruction ?a = Inr i2"
  from initialize_buffer [OF this] obtain n s u f cr c us where
    h: "getStringEncoder (InitializeInstructionArgs.name ?a) = Inr n"
      "getStringEncoder (InitializeInstructionArgs.symbol ?a) = Inr s"
      "getStringEncoder (InitializeInstructionArgs.uri ?a) = Inr u"
      "getU16Encoder (InitializeData.seller_fee_basis_points (initializeData ?a)) = Inr f"
      "getOptionEncoder (getArrayEncoder creatorEncoder)
         (InitializeData.creators (initializeData ?a)) = Inr cr"
      "getOptionEncoder usesEncoder (InitializeData.uses (initializeData ?a)) = Inr us"
    and c: "getOptionEncoder collectionEncoder
         (InitializeData.collection (initializeData ?a)) = Inr c"
    and d: "data i2 = [210, 225, 30, 162, 88, 184, 77, 141] @ n @ s @ u @ f @ cr @ c @ us"
    by blast
  have "InitializeData.collection (initializeData ?a) = None"
    by (simp add: initializeData_def default_to_def Let_def)
  with c have "c = [0]" by simp
  with h d
  show "\<exists>n s u f cr us.
       getStringEncoder (InitializeInstructionArgs.name a) = Inr n \<and>
       getStringEncoder (InitializeInstructionArgs.symbol a) = Inr s \<and>
       getStringEncoder (InitializeInstructionArgs.uri a) = Inr u \<and>
       getU16Encoder (InitializeData.seller_fee_basis_points (initializeData a)) = Inr f \<and>
       getOptionEncoder (getArrayEncoder creatorEncoder)
         (InitializeData.creators (initializeData a)) = Inr cr \<and>
       getOptionEncoder usesEncoder (InitializeData.uses (initializeData a)) = Inr us \<and>
       data i2 = [210, 225, 30, 162, 88, 184, 77, 141] @ n @ s @ u @ f @ cr @ [0] @ us"
    by (simp add: initializeData_def Let_def)
next
  let ?a = "a\<lparr>InitializeInstructionArgs.uses := None\<rparr>"
  assume "createInitializeInstruction ?a = Inr i3"
  from initialize_buffer [OF this] obtain n s u f cr c us where
    h: "getStringEncoder (InitializeInstructionArgs.name ?a) = Inr n"
      "getStringEncoder (InitializeInstructionArgs.symbol ?a) = Inr s"
      "getStringEncoder (InitializeInstructionArgs.uri ?a) = Inr u"
      "getU16Encoder (InitializeData.seller_fee_basis_points (initializeData ?a)) = Inr f"
      "getOptionEncoder (getArrayEncoder creatorEncoder)
         (InitializeData.creators (initializeData ?a)) = Inr cr"
      "getOptionEncoder collectionEncoder
         (InitializeData.collection (initializeData ?a)) = Inr c"
    and us: "getOptionEncoder usesEncoder (InitializeData.uses (initializeData ?a)) = Inr us"
    and d: "data i3 = [210, 225, 30, 162, 88, 184, 77, 141] @ n @ s @ u @ f @ cr @ c @ us"
    by blast
  have "InitializeData.uses (initializeData ?a) = None"
    by (simp add: initializeData_def default_to_def Let_def)
  with us have "us = [0]" by simp
  with h d
  show "\<exists>n s u f cr c.
       getStringEncoder (InitializeInstructionArgs.name a) = Inr n \<and>
       getStringEncoder (InitializeInstructionArgs.symbol a) = Inr s \<and>
       getStringEncoder (InitializeInstructionArgs.uri a) = Inr u \<and>
       getU16Encoder (InitializeData.seller_fee_basis_points (initializeData a)) = Inr f \<and>
       getOptionEncoder (getArrayEncoder creatorEncoder)
         (InitializeData.creators (initializeData a)) = Inr cr \<and>
       getOptionEncoder collectionEncoder
         (InitializeData.collection (initializeData a)) = Inr c \<and>
       data i3 = [210, 225, 30, 162, 88, 184, 77, 141] @ n @ s @ u @ f @ cr @ c @ [0]"
    by (simp add: initializeData_def Let_def)
qed

theorem initialize_omitted_defaults_witness:
  "createInitializeInstruction example_plain_initialize_args =
   Inr \<lparr>TransactionInstruction.programId = example_key 0,
        keys = [\<lparr>isSigner = False, isWritable = True, pubkey = example_key 1\<rparr>,
                \<lparr>isSigner = False, isWritable = False, pubkey = example_key 4\<rparr>,
                \<lparr>isSigner = False, isWritable = False, pubkey = example_key 2\<rparr>,
                \<lparr>isSigner = True, isWritable = False, pubkey = example_key 3\<rparr>],
        data = [210, 225, 30, 162, 88, 184, 77, 141] @ [1, 0, 0, 0, 97] @ [1, 0, 0, 0, 98] @
               [1, 0, 0, 0, 99] @ [0, 0] @ [0] @ [0] @ [0]\<rparr> \<and>
   example_plain_initialize_args\<lparr>sellerFeeBasisPoints := None\<rparr> =
     example_plain_initialize_args \<and>
   example_plain_initialize_args\<lparr>InitializeInstructionArgs.collection := None\<rparr> =
     example_plain_initialize_args \<and>
   example_plain_initialize_args\<lparr>InitializeInstructionArgs.uses := None\<rparr> =
     example_plain_initialize_args"
  using initialize_omitted_defaults [of example_plain_initialize_args]
  by (simp add: evaluation example_plain_initialize_args_def)

subsection \<open>UpdateField: a plain string as the field\<close>

lemma getStringEncoder_bytes:
  "length s \<le> 4294967295 \<Longrightarrow>
   getStringEncoder s = Inr (le_bytes 4 (int (length s)) @ map of_char s)"
  by (simp add: getStringEncoder_eq getU32Encoder_length)

lemma field_encoder_well_known:
  "getDataEnumEncoder layoutKind getFieldCodec NameLayout = Inr [0]"
  "getDataEnumEncoder layoutKind getFieldCodec SymbolLayout = Inr [1]"
  "getDataEnumEncoder layoutKind getFieldCodec UriLayout = Inr [2]"
  by (simp_all add: getDataEnumEncoder_def getFieldCodec_def getUnitEncoder_def
      number_encoder_defs)

lemma field_encoder_key:
  "length s \<le> 4294967295 \<Longrightarrow>
   getDataEnumEncoder layoutKind getFieldCodec (KeyLayout s) =
     Inr (3 # le_bytes 4 (int (length s)) @ map of_char s)"
  by (simp add: getDataEnumEncoder_def getFieldCodec_def getStringEncoder_bytes
      number_encoder_defs)

lemma update_field_bytes:
  assumes "getDataEnumEncoder layoutKind getFieldCodec (getFieldConfig f) = Inr fb"
    and "length v \<le> 4294967295"
  shows "createUpdateFieldInstruction layoutKind getFieldCodec getFieldConfig
      \<lparr>UpdateFieldInstruction.programId = p, metadata = m, updateAuthority = u,
       field = f, value' = v\<rparr> =
    Inr \<lparr>TransactionInstruction.programId = p,
         keys = [\<lparr>isSigner = False, isWritable = True, pubkey = m\<rparr>,
                 \<lparr>isSigner = True, isWritable = False, pubkey = u\<rparr>],
         data = [221, 233, 49, 45, 181, 202, 220, 200] @ fb @
                le_bytes 4 (int (length v)) @ map of_char v\<rparr>"
  using assms
  by (simp add: createUpdateFieldInstruction_def updateFieldData_def
      updateFieldDataEncoder_def getInstructionEncoder_eq update_field_discriminator_def
      getStringEncoder_bytes)

text \<open>
  Claim C10, as amended. UpdateField takes the field as a \<^verbatim>\<open>Field\<close> or as a plain string
  and converts it before encoding. A string other than Name, name, Symbol, symbol, Uri and
  uri becomes the string-key variant: the data holds the index 3 and the string, which are
  the bytes of that variant. Each of those six strings becomes the well-known variant it
  names, and the data holds only the index 0, 1 or 2, as for the \<^verbatim>\<open>Field\<close> itself.
\<close>

theorem update_field_plain_string:
  "(s \<noteq> ''Name'' \<and> s \<noteq> ''name'' \<and> s \<noteq> ''Symbol'' \<and> s \<noteq> ''symbol'' \<and>
    s \<noteq> ''Uri'' \<and> s \<noteq> ''uri'' \<and> length s \<le> 4294967295 \<and> length v \<le> 4294967295 \<longrightarrow>
      createUpdateFieldInstruction layoutKind getFieldCodec getFieldConfig
        \<lparr>UpdateFieldInstruction.programId = p, metadata = m, updateAuthority = u,
         field = AsString s, value' = v\<rparr> =
      Inr \<lparr>TransactionInstruction.programId = p,
           keys = [\<lparr>isSigner = False, isWritable = True, pubkey = m\<rparr>,
                   \<lparr>isSigner = True, isWritable = False, pubkey = u\<rparr>],
           data = [221, 233, 49, 45, 181, 202, 220, 200] @
                  (3 # le_bytes 4 (int (length s)) @ map of_char s) @
                  le_bytes 4 (int (length v)) @ map of_char v\<rparr> \<and>
      updateFieldDataEncoder layoutKind getFieldCodec
        \<lparr>UpdateFieldData.field = KeyLayout s, value' = v\<rparr> =
      Inr ((3 # le_bytes 4 (int (length s)) @ map of_char s) @
           le_bytes 4 (int (length v)) @ map of_char v)) \<and>
   (length v \<le> 4294967295 \<and> w \<in> {''Name'', ''name''} \<longrightarrow>
      createUpdateFieldInstruction layoutKind getFieldCodec getFieldConfig
        \<lparr>UpdateFieldInstruction.programId = p, metadata = m, updateAuthority = u,
         field = AsString w, value' = v\<rparr> =
      Inr \<lparr>TransactionInstruction.programId = p,
           keys = [\<lparr>isSigner = False, isWritable = True, pubkey = m\<rparr>,
                   \<lparr>isSigner = True, isWritable = False, pubkey = u\<rparr>],
           data = [221, 233, 49, 45, 181, 202, 220, 200] @ [0] @
                  le_bytes 4 (int (length v)) @ map of_char v\<rparr>) \<and>
   (length v \<le> 4294967295 \<and> w \<in> {''Symbol'', ''symbol''} \<longrightarrow>
      createUpdateFieldInstruction layoutKind getFieldCodec getFieldConfig
        \<lparr>UpdateFieldInstruction.programId = p, metadata = m, updateAuthority = u,
         field = AsString w, value' = v\<rparr> =
      Inr \<lparr>TransactionInstruction.programId = p,
           keys = [\<lparr>isSigner = False, isWritable = True, pubkey = m\<rparr>,
                   \<lparr>isSigner = True, isWritable = False, pubkey = u\<rparr>],
           data = [221, 233, 49, 45, 181, 202, 220, 200] @ [1] @
                  le_bytes 4 (int (length v)) @ map of_char v\<rparr>) \<and>
   (length v \<le> 4294967295 \<and> w \<in> {''Uri'', ''uri''} \<longrightarrow>
      createUpdateFieldInstruction layoutKind getFieldCodec getFieldConfig
        \<lparr>UpdateFieldInstruction.programId = p, metadata = m, updateAuthority = u,
         field = AsString w, value' = v\<rparr> =
      Inr \<lparr>TransactionInstruction.programId = p,
           keys = [\<lparr>isSigner = False, isWritable = True, pubkey = m\<rparr>,
                   \<lparr>isSigner = True, isWritable = False, pubkey = u\<rparr>],
           data = [221, 233, 49, 45, 181, 202, 220, 200] @ [2] @
                  le_bytes 4 (int (length v)) @ map of_char v\<rparr>) \<and>
   createUpdateFieldInstruction layoutKind getFieldCodec getFieldConfig
     (a\<lparr>UpdateFieldInstruction.field := AsString ''name''\<rparr>) =
     createUpdateFieldInstruction layoutKind getFieldCodec getFieldConfig
       (a\<lparr>UpdateFieldInstruction.field := AsField Name\<rparr>) \<and>
   createUpdateFieldInstruction layoutKind getFieldCodec getFieldConfig
     (a\<lparr>UpdateFieldInstruction.field := AsString ''symbol''\<rparr>) =
     createUpdateFieldInstruction layoutKind getFieldCodec getFieldConfig
       (a\<lparr>UpdateFieldInstruction.field := AsField Symbol\<rparr>) \<and>
   createUpdateFieldInstruction layoutKind getFieldCodec getFieldConfig
     (a\<lparr>UpdateFieldInstruction.field := AsString ''uri''\<rparr>) =
     createUpdateFieldInstruction layoutKind getFieldCodec getFieldConfig
       (a\<lparr>UpdateFieldInstruction.field := AsField Uri\<rparr>)"
proof (intro conjI impI)
  assume h: "s \<noteq> ''Name'' \<and> s \<noteq> ''name'' \<and> s \<noteq> ''Symbol'' \<and> s \<noteq> ''symbol'' \<and>
    s \<noteq> ''Uri'' \<and> s \<noteq> ''uri'' \<and> length s \<le> 4294967295 \<and> length v \<le> 4294967295"
  then have c: "getFieldConfig (AsString s) = KeyLayout s" by simp
  from h have e: "getDataEnumEncoder layoutKind getFieldCodec (getFieldConfig (AsString s)) =
      Inr (3 # le_bytes 4 (int (length s)) @ map of_char s)"
    by (simp only: c field_encoder_key)
  from h have lv: "length v \<le> 4294967295" by blast
  show "createUpdateFieldInstruction layoutKind getFieldCodec getFieldConfig
        \<lparr>UpdateFieldInstruction.programId = p, metadata = m, updateAuthority = u,
         field = AsString s, value' = v\<rparr> =
      Inr \<lparr>TransactionInstruction.programId = p,
           keys = [\<lparr>isSigner = False, isWritable = True, pubkey = m\<rparr>,
                   \<lparr>isSigner = True, isWritable = False, pubkey = u\<rparr>],
           data = [221, 233, 49, 45, 181, 202, 220, 200] @
                  (3 # le_bytes 4 (int (length s)) @ map of_char s) @
                  le_bytes 4 (int (length v)) @ map of_char v\<rparr>"
    by (rule update_field_bytes [OF e lv])
  from h show "updateFieldDataEncoder layoutKind getFieldCodec
        \<lparr>UpdateFieldData.field = KeyLayout s, value' = v\<rparr> =
      Inr ((3 # le_bytes 4 (int (length s)) @ map of_char s) @
           le_bytes 4 (int (length v)) @ map of_char v)"
    by (simp add: updateFieldDataEncoder_def field_encoder_key getStringEncoder_bytes)
next
  assume h: "length v \<le> 4294967295 \<and> w \<in> {''Name'', ''name''}"
  then have "getDataEnumEncoder layoutKind getFieldCodec (getFieldConfig (AsString w)) = Inr [0]"
    by (auto simp: field_encoder_well_known)
  from update_field_bytes [OF this] h
  show "createUpdateFieldInstruction layoutKind getFieldCodec getFieldConfig
        \<lparr>UpdateFieldInstruction.programId = p, metadata = m, updateAuthority = u,
         field = AsString w, value' = v\<rparr> =
      Inr \<lparr>TransactionInstruction.programId = p,
           keys = [\<lparr>isSigner = False, isWritable = True, pubkey = m\<rparr>,
                   \<lparr>isSigner = True, isWritable = False, pubkey = u\<rparr>],
           data = [221, 233, 49, 45, 181, 202, 220, 200] @ [0] @
                  le_bytes 4 (int (length v)) @ map of_char v\<rparr>"
    by blast
next
  assume h: "length v \<le> 4294967295 \<and> w \<in> {''Symbol'', ''symbol''}"
  then have "getDataEnumEncoder layoutKind getFieldCodec (getFieldConfig (AsString w)) = Inr [1]"
    by (auto simp: field_encoder_well_known)
  from update_field_bytes [OF this] h
  show "createUpdateFieldInstruction layoutKind getFieldCodec getFieldConfig
        \<lparr>UpdateFieldInstruction.programId = p, metadata = m, updateAuthority = u,
         field = AsString w, value' = v\<rparr> =
      Inr \<lparr>TransactionInstruction.programId = p,
           keys = [\<lparr>isSigner = False, isWritable = True, pubkey = m\<rparr>,
                   \<lparr>isSigner = True, isWritable = False, pubkey = u\<rparr>],
           data = [221, 233, 49, 45, 181, 202, 220, 200] @ [1] @
                  le_bytes 4 (int (length v)) @ map of_char v\<rparr>"
    by blast
next
  assume h: "length v \<le> 4294967295 \<and> w \<in> {''Uri'', ''uri''}"
  then have "getDataEnumEncoder layoutKind getFieldCodec (getFieldConfig (AsString w)) = Inr [2]"
    by (auto simp: field_encoder_well_known)
  from update_field_bytes [OF this] h
  show "createUpdateFieldInstruction layoutKind getFieldCodec getFieldConfig
        \<lparr>UpdateFieldInstruction.programId = p, metadata = m, updateAuthority = u,
         field = AsString w, value' = v\<rparr> =
      Inr \<lparr>TransactionInstruction.programId = p,
           keys = [\<lparr>isSigner = False, isWritable = True, pubkey = m\<rparr>,
                   \<lparr>isSigner = True, isWritable = False, pubkey = u\<rparr>],
           data = [221, 233, 49, 45, 181, 202, 220, 200] @ [2] @
                  le_bytes 4 (int (length v)) @ map of_char v\<rparr>"
    by blast
qed (simp_all add: createUpdateFieldInstruction_def updateFieldData_def cong: sum.case_cong)

theorem update_field_plain_string_witness:
  "createUpdateFieldInstruction layoutKind getFieldCodec getFieldConfig
     example_update_field_args =
   Inr \<lparr>TransactionInstruction.programId = example_key 0,
        keys = [\<lparr>isSigner = False, isWritable = True, pubkey = example_key 1\<rparr>,
                \<lparr>isSigner = True, isWritable = False, pubkey = example_key 4\<rparr>],
        data = [221, 233, 49, 45, 181, 202, 220, 200] @
               [3, 5, 0, 0, 0, 99, 111, 108, 111, 114] @ [3, 0, 0, 0, 114, 101, 100]\<rparr> \<and>
   createUpdateFieldInstruction layoutKind getFieldCodec getFieldConfig
     (example_update_field_args
        \<lparr>UpdateFieldInstruction.field := AsString ''Symbol''\<rparr>) =
   Inr \<lparr>TransactionInstruction.programId = example_key 0,
        keys = [\<lparr>isSigner = False, isWritable = True, pubkey = example_key 1\<rparr>,
                \<lparr>isSigner = True, isWritable = False, pubkey = example_key 4\<rparr>],
        data = [221, 233, 49, 45, 181, 202, 220, 200] @ [1] @ [3, 0, 0, 0, 114, 101, 100]\<rparr>"
  using update_field_plain_string
    [where s = "''color''" and v = "''red''" and w = "''Symbol''" and p = "example_key 0"
       and m = "example_key 1" and u = "example_key 4"]
  by (simp add: example_update_field_args_def le_bytes_numeral)

text \<open>
  The claim as stated fails for the string name: the builder writes the index 0 of the
  well-known variant and no string, where the string-key variant of that string is the
  index 3 followed by the four bytes of the length and the four bytes of the string.
\<close>

theorem update_field_plain_string_counterexample:
  "createUpdateFieldInstruction layoutKind getFieldCodec getFieldConfig
     \<lparr>UpdateFieldInstruction.programId = example_key 0, metadata = example_key 1,
      updateAuthority = example_key 4, field = AsString ''name'', value' = ''x''\<rparr> =
   Inr \<lparr>TransactionInstruction.programId = example_key 0,
        keys = [\<lparr>isSigner = False, isWritable = True, pubkey = example_key 1\<rparr>,
                \<lparr>isSigner = True, isWritable = False, pubkey = example_key 4\<rparr>],
        data = [221, 233, 49, 45, 181, 202, 220, 200] @ [0] @ [1, 0, 0, 0, 120]\<rparr> \<and>
   updateFieldDataEncoder layoutKind getFieldCodec
     \<lparr>UpdateFieldData.field = KeyLayout ''name'', value' = ''x''\<rparr> =
   Inr ([3, 4, 0, 0, 0, 110, 97, 109, 101] @ [1, 0, 0, 0, 120])"
  by (simp add: evaluation)

subsection \<open>Decoding what was encoded\<close>

lemma uint_word_of_int_u8: "uint (word_of_int v :: u8) = v mod 256"
  by (simp add: uint_word_of_int_eq take_bit_eq_mod)

lemma le_int_le_bytes: "0 \<le> v \<Longrightarrow> v < 256 ^ n \<Longrightarrow> le_int (le_bytes n v) = v"
proof (induction n arbitrary: v)
  case 0
  then show ?case by simp
next
  case (Suc n)
  from Suc.prems have "0 \<le> v div 256" and "v div 256 < 256 ^ n"
    by (simp_all add: div_less_iff_less_mult)
  with Suc.IH have "le_int (le_bytes n (v div 256)) = v div 256" by blast
  then show ?case by (simp add: uint_word_of_int_u8)
qed

lemma char_of_unat_of_char: "char_of (unat (of_char c :: u8)) = c"
proof -
  have "(of_char c :: u8) = of_nat (of_char c)"
    by (simp add: of_nat_of_char)
  then have "unat (of_char c :: u8) = of_char c"
    by (simp add: unat_of_nat take_bit_eq_mod)
  then show ?thesis by simp
qed

lemma number_roundtrip:
  assumes "numberEncoderFactory nm sz 0 hi v = Inr bs" and "hi < 256 ^ sz"
  shows "numberDecoder sz (bs @ rest) = Some (\<lfloor>v\<rfloor>, rest)"
proof -
  from assms(1) have v: "0 \<le> v" "v \<le> hi" and bs: "bs = le_bytes sz \<lfloor>v\<rfloor>"
    by (simp_all add: numberEncoderFactory_eq_Inr)
  from v assms(2) have "v < of_int (256 ^ sz)" by simp
  then have "\<lfloor>v\<rfloor> < 256 ^ sz" by (simp only: floor_less_iff)
  moreover from v have "0 \<le> \<lfloor>v\<rfloor>" by simp
  ultimately have "le_int (le_bytes sz \<lfloor>v\<rfloor>) = \<lfloor>v\<rfloor>"
    by (intro le_int_le_bytes)
  with bs show ?thesis by (simp add: numberDecoder_def)
qed

lemma getU8_roundtrip:
  "getU8Encoder v = Inr bs \<Longrightarrow> getU8Decoder (bs @ rest) = Some (\<lfloor>v\<rfloor>, rest)"
  unfolding getU8Encoder_def getU8Decoder_def by (erule number_roundtrip) simp

lemma getU16_roundtrip:
  "getU16Encoder v = Inr bs \<Longrightarrow> getU16Decoder (bs @ rest) = Some (\<lfloor>v\<rfloor>, rest)"
  unfolding getU16Encoder_def getU16Decoder_def by (erule number_roundtrip) simp

lemma getU32_roundtrip:
  "getU32Encoder v = Inr bs \<Longrightarrow> getU32Decoder (bs @ rest) = Some (\<lfloor>v\<rfloor>, rest)"
  unfolding getU32Encoder_def getU32Decoder_def by (erule number_roundtrip) simp

lemma getU64_BigInt_roundtrip:
  assumes "getU64Encoder (BigInt k) = Inr bs"
  shows "getU64Decoder (bs @ rest) = Some (k, rest)"
proof -
  from assms have k: "0 \<le> k" "(of_int k :: rat) \<le> 18446744073709551615"
    and bs: "bs = le_bytes 8 k"
    by (auto simp: getU64Encoder_def Let_def split: if_splits)
  from k(2) have "(of_int k :: rat) \<le> of_int 18446744073709551615" by simp
  then have "k \<le> 18446744073709551615" by (simp only: of_int_le_iff)
  with k(1) have "le_int (le_bytes 8 k) = k"
    by (intro le_int_le_bytes) simp_all
  with bs show ?thesis by (simp add: getU64Decoder_def numberDecoder_def)
qed

lemma getU64_Number_roundtrip:
  assumes "getU64Encoder (Number n) = Inr bs"
  shows "getU64Decoder (bs @ rest) = Some (\<lfloor>n\<rfloor>, rest) \<and> of_int \<lfloor>n\<rfloor> = n"
proof -
  from assms have n: "0 \<le> n" "n \<le> 18446744073709551615" "of_int \<lfloor>n\<rfloor> = n"
    and bs: "bs = le_bytes 8 \<lfloor>n\<rfloor>"
    by (auto simp: getU64Encoder_def Let_def split: if_splits)
  from n(2) have "n < of_int 18446744073709551616" by simp
  then have "\<lfloor>n\<rfloor> < 18446744073709551616" by (simp only: floor_less_iff)
  moreover from n(1) have "0 \<le> \<lfloor>n\<rfloor>" by simp
  ultimately have "le_int (le_bytes 8 \<lfloor>n\<rfloor>) = \<lfloor>n\<rfloor>"
    by (intro le_int_le_bytes) simp_all
  with bs n(3) show ?thesis by (simp add: getU64Decoder_def numberDecoder_def)
qed

lemma getBooleanDecoder_flag:
  "getBooleanDecoder (0 # rest) = Some (False, rest)"
  "getBooleanDecoder (1 # rest) = Some (True, rest)"
  by (simp_all add: getBooleanDecoder_def getU8Decoder_def numberDecoder_def)

lemma boolean_roundtrip:
  "getBooleanEncoder b = Inr bs \<Longrightarrow> getBooleanDecoder (bs @ rest) = Some (b, rest)"
  by (cases b) (auto simp: getBooleanDecoder_flag)

lemma publicKey_roundtrip:
  "getPublicKeyEncoder k = Inr bs \<Longrightarrow> getPublicKeyDecoder (bs @ rest) = Some (k, rest)"
  by (auto simp: getPublicKeyEncoder_eq getPublicKeyDecoder_def toBytes_inverse)

lemma string_roundtrip:
  assumes "getStringEncoder s = Inr bs"
  shows "getStringDecoder (bs @ rest) = Some (s, rest)"
proof -
  from assms obtain p where p: "getU32Encoder (of_nat (length s)) = Inr p"
    and bs: "bs = p @ map of_char s"
    by (auto simp: getStringEncoder_eq write_then_eq_Inr)
  have "getU32Decoder (p @ map of_char s @ rest) = Some (int (length s), map of_char s @ rest)"
    using getU32_roundtrip [OF p] by simp
  moreover have "map (\<lambda>b. char_of (unat b)) (map of_char s :: bytes) = s"
    by (simp add: comp_def char_of_unat_of_char)
  ultimately show ?thesis
    by (simp add: getStringDecoder_def bs)
qed

lemma option_roundtrip:
  assumes "getOptionEncoder item v = Inr bs"
    and "\<And>x b r. v = Some x \<Longrightarrow> item x = Inr b \<Longrightarrow> dec (b @ r) = Some (x, r)"
  shows "getOptionDecoder dec (bs @ rest) = Some (v, rest)"
proof (cases v)
  case None
  with assms(1) have "bs = [0]" by simp
  with None show ?thesis
    by (simp add: getOptionDecoder_def getBooleanDecoder_flag)
next
  case (Some x)
  with assms(1) obtain b where b: "item x = Inr b" and bs: "bs = 1 # b"
    by (auto simp: write_then_eq_Inr)
  from assms(2) [OF Some b] have "dec (b @ rest) = Some (x, rest)" .
  with Some bs show ?thesis
    by (simp add: getOptionDecoder_def getBooleanDecoder_flag)
qed

lemma items_roundtrip:
  assumes "write_items item xs = Inr bs"
    and "\<And>x b r. x \<in> set xs \<Longrightarrow> item x = Inr b \<Longrightarrow> dec (b @ r) = Some (x, r)"
  shows "read_items dec (length xs) (bs @ rest) = Some (xs, rest)"
  using assms
proof (induction xs arbitrary: bs)
  case Nil
  then show ?case by simp
next
  case (Cons x xs)
  from Cons.prems(1) obtain b bs' where b: "item x = Inr b"
    and bs': "write_items item xs = Inr bs'" and bs: "bs = b @ bs'"
    by (auto simp: write_then_eq_Inr)
  have "dec (b @ bs' @ rest) = Some (x, bs' @ rest)"
    by (rule Cons.prems(2) [OF _ b]) simp
  moreover have "read_items dec (length xs) (bs' @ rest) = Some (xs, rest)"
    by (rule Cons.IH [OF bs']) (simp add: Cons.prems(2))
  ultimately show ?case by (simp add: bs)
qed

lemma array_roundtrip:
  assumes "getArrayEncoder item xs = Inr bs"
    and "\<And>x b r. x \<in> set xs \<Longrightarrow> item x = Inr b \<Longrightarrow> dec (b @ r) = Some (x, r)"
  shows "getArrayDecoder dec (bs @ rest) = Some (xs, rest)"
proof -
  from assms(1) obtain p q where p: "getU32Encoder (of_nat (length xs)) = Inr p"
    and q: "write_items item xs = Inr q" and bs: "bs = p @ q"
    by (auto simp: getArrayEncoder_def write_then_eq_Inr)
  have "getU32Decoder (p @ q @ rest) = Some (int (length xs), q @ rest)"
    using getU32_roundtrip [OF p] by simp
  moreover have "read_items dec (length xs) (q @ rest) = Some (xs, rest)"
    by (rule items_roundtrip [OF q assms(2)])
  ultimately show ?thesis by (simp add: getArrayDecoder_def bs)
qed

lemma findIndex_Some:
  "findIndex p xs = Some i \<Longrightarrow> i < length xs \<and> p (xs ! i)"
  by (induction xs arbitrary: i) (auto split: if_splits option.splits)

lemma dataEnum_roundtrip:
  assumes "getDataEnumEncoder kind encs v = Inr bs"
    and "length decs = length encs"
    and "\<And>i b r. i < length encs \<Longrightarrow> kind v = fst (encs ! i) \<Longrightarrow>
           snd (encs ! i) v = Inr b \<Longrightarrow> snd (decs ! i) (b @ r) = Some (v, r)"
  shows "getDataEnumDecoder decs (bs @ rest) = Some (v, rest)"
proof -
  from assms(1) obtain i p b where
    i: "findIndex (\<lambda>entry. kind v = fst entry) encs = Some i"
    and p: "getU8Encoder (of_nat i) = Inr p"
    and b: "snd (encs ! i) v = Inr b" and bs: "bs = p @ b"
    by (auto simp: getDataEnumEncoder_def write_then_eq_Inr split: option.splits)
  from findIndex_Some [OF i] have il: "i < length encs" and k: "kind v = fst (encs ! i)"
    by simp_all
  have "getU8Decoder (p @ b @ rest) = Some (int i, b @ rest)"
    using getU8_roundtrip [OF p] by simp
  moreover have "snd (decs ! i) (b @ rest) = Some (v, rest)"
    by (rule assms(3) [OF il k b])
  ultimately show ?thesis
    using il assms(2) by (simp add: getDataEnumDecoder_def bs)
qed

lemma getBooleanDecoder_if:
  "getBooleanDecoder ((if b then 1 else 0) # rest) = Some (b, rest)"
  by (simp add: getBooleanDecoder_flag)

lemma creator_roundtrip:
  assumes "isInteger (Creator.share c)" and "creatorEncoder c = Inr bs"
  shows "creatorDecoder (bs @ rest) = Some (c, rest)"
proof -
  from assms(2) obtain b1 b3 where
    b1: "getPublicKeyEncoder (Creator.address c) = Inr b1"
    and b3: "getU8Encoder (Creator.share c) = Inr b3"
    and bs: "bs = b1 @ (if Creator.verified c then 1 else 0) # b3"
    by (auto simp: creatorEncoder_def write_then_eq_Inr)
  note d1 = publicKey_roundtrip [OF b1]
  note d3 = getU8_roundtrip [OF b3]
  from assms(1) have "of_int \<lfloor>Creator.share c\<rfloor> = Creator.share c"
    by (simp add: isInteger_def)
  then show ?thesis
    by (simp add: creatorDecoder_def bs d1 getBooleanDecoder_if d3)
qed

lemma collection_roundtrip:
  assumes "collectionEncoder c = Inr bs"
  shows "collectionDecoder (bs @ rest) = Some (c, rest)"
proof -
  from assms obtain b1 where
    b1: "getPublicKeyEncoder (Collection.key c) = Inr b1"
    and bs: "bs = b1 @ [if Collection.verified c then 1 else 0]"
    by (auto simp: collectionEncoder_def write_then_eq_Inr)
  note d1 = publicKey_roundtrip [OF b1]
  show ?thesis
    by (simp add: collectionDecoder_def bs d1 getBooleanDecoder_if)
qed

lemma uses_roundtrip:
  assumes "isInteger (Uses.use_method u)" and "usesEncoder u = Inr bs"
  shows "usesDecoder (bs @ rest) = Some (u, rest)"
proof -
  from assms(2) obtain b1 b2 b3 where
    b1: "getU8Encoder (Uses.use_method u) = Inr b1"
    and b2: "getU64Encoder (Number (Uses.remaining u)) = Inr b2"
    and b3: "getU64Encoder (Number (Uses.total u)) = Inr b3"
    and bs: "bs = b1 @ b2 @ b3"
    by (auto simp: usesEncoder_def write_then_eq_Inr)
  note d1 = getU8_roundtrip [OF b1]
  note d2 = getU64_Number_roundtrip [OF b2]
  note d3 = getU64_Number_roundtrip [OF b3]
  from assms(1) have "of_int \<lfloor>Uses.use_method u\<rfloor> = Uses.use_method u"
    by (simp add: isInteger_def)
  then show ?thesis
    by (simp add: usesDecoder_def bs d1 d2 d3)
qed

lemma removeKeyData_roundtrip:
  assumes "removeKeyDataEncoder d = Inr bs"
  shows "removeKeyDataDecoder (bs @ rest) = Some (d, rest)"
proof -
  from assms obtain b2 where
    b2: "getStringEncoder (RemoveKeyData.key d) = Inr b2"
    and bs: "bs = (if RemoveKeyData.idempotent d then 1 else 0) # b2"
    by (auto simp: removeKeyDataEncoder_def write_then_eq_Inr)
  note d2 = string_roundtrip [OF b2]
  show ?thesis
    by (simp add: removeKeyDataDecoder_def bs getBooleanDecoder_if d2)
qed

lemma updateAuthorityData_roundtrip:
  assumes "updateAuthorityDataEncoder d = Inr bs"
  shows "updateAuthorityDataDecoder (bs @ rest) = Some (d, rest)"
proof -
  from assms have b1: "getPublicKeyEncoder (UpdateAuthorityData.newAuthority d) = Inr bs"
    by (auto simp: updateAuthorityDataEncoder_def write_then_eq_Inr)
  note d1 = publicKey_roundtrip [OF b1]
  show ?thesis
    by (simp add: updateAuthorityDataDecoder_def d1)
qed

lemma emitData_roundtrip:
  assumes "emitDataEncoder d = Inr bs"
  shows "emitDataDecoder (bs @ rest) = Some (d, rest)"
proof -
  from assms obtain b1 b2 where
    b1: "getOptionEncoder (transformEncoder getU64Encoder BigInt) (EmitData.start d) = Inr b1"
    and b2: "getOptionEncoder (transformEncoder getU64Encoder BigInt) (EmitData.end' d) = Inr b2"
    and bs: "bs = b1 @ b2"
    by (auto simp: emitDataEncoder_def write_then_eq_Inr)
  have d1: "getOptionDecoder getU64Decoder (b1 @ r) = Some (EmitData.start d, r)" for r
    by (rule option_roundtrip [OF b1])
      (simp add: transformEncoder_def getU64_BigInt_roundtrip)
  have d2: "getOptionDecoder getU64Decoder (b2 @ r) = Some (EmitData.end' d, r)" for r
    by (rule option_roundtrip [OF b2])
      (simp add: transformEncoder_def getU64_BigInt_roundtrip)
  show ?thesis
    by (simp add: emitDataDecoder_def bs d1 d2)
qed

lemma updateFieldData_roundtrip:
  assumes "updateFieldDataEncoder kind encs d = Inr bs"
    and "length decs = length encs"
    and "\<And>i b r. i < length encs \<Longrightarrow> kind (UpdateFieldData.field d) = fst (encs ! i) \<Longrightarrow>
           snd (encs ! i) (UpdateFieldData.field d) = Inr b \<Longrightarrow>
           snd (decs ! i) (b @ r) = Some (UpdateFieldData.field d, r)"
  shows "updateFieldDataDecoder decs (bs @ rest) = Some (d, rest)"
proof -
  from assms(1) obtain b1 b2 where
    b1: "getDataEnumEncoder kind encs (UpdateFieldData.field d) = Inr b1"
    and b2: "getStringEncoder (UpdateFieldData.value' d) = Inr b2"
    and bs: "bs = b1 @ b2"
    by (auto simp: updateFieldDataEncoder_def write_then_eq_Inr)
  have d1: "getDataEnumDecoder decs (b1 @ r) = Some (UpdateFieldData.field d, r)" for r
    by (rule dataEnum_roundtrip [OF b1 assms(2)]) (rule assms(3))
  note d2 = string_roundtrip [OF b2]
  show ?thesis
    by (simp add: updateFieldDataDecoder_def bs d1 d2)
qed

lemma initializeData_roundtrip:
  assumes "initializeDataIntegral d" and "initializeDataEncoder d = Inr bs"
  shows "initializeDataDecoder (bs @ rest) = Some (d, rest)"
proof -
  from assms(2) obtain b1 b2 b3 b4 b5 b6 b7 where
    b1: "getStringEncoder (InitializeData.name d) = Inr b1"
    and b2: "getStringEncoder (InitializeData.symbol d) = Inr b2"
    and b3: "getStringEncoder (InitializeData.uri d) = Inr b3"
    and b4: "getU16Encoder (InitializeData.seller_fee_basis_points d) = Inr b4"
    and b5: "getOptionEncoder (getArrayEncoder creatorEncoder) (InitializeData.creators d) =
               Inr b5"
    and b6: "getOptionEncoder collectionEncoder (InitializeData.collection d) = Inr b6"
    and b7: "getOptionEncoder usesEncoder (InitializeData.uses d) = Inr b7"
    and bs: "bs = b1 @ b2 @ b3 @ b4 @ b5 @ b6 @ b7"
    unfolding initializeDataEncoder_def getStructEncoder.simps snd_conv write_then_eq_Inr
    by auto
  note d1 = string_roundtrip [OF b1]
  note d2 = string_roundtrip [OF b2]
  note d3 = string_roundtrip [OF b3]
  note d4 = getU16_roundtrip [OF b4]
  from assms(1)
  have i4: "of_int \<lfloor>InitializeData.seller_fee_basis_points d\<rfloor> =
              InitializeData.seller_fee_basis_points d"
    by (simp add: initializeDataIntegral_def isInteger_def)
  have d5: "getOptionDecoder (getArrayDecoder creatorDecoder) (b5 @ r) =
              Some (InitializeData.creators d, r)" for r
  proof (rule option_roundtrip [OF b5])
    fix cs b r'
    assume cs: "InitializeData.creators d = Some cs"
      and b: "getArrayEncoder creatorEncoder cs = Inr b"
    from assms(1) cs have valid: "\<And>c. c \<in> set cs \<Longrightarrow> isInteger (Creator.share c)"
      by (simp add: initializeDataIntegral_def list_all_iff)
    show "getArrayDecoder creatorDecoder (b @ r') = Some (cs, r')"
      by (rule array_roundtrip [OF b]) (rule creator_roundtrip [OF valid])
  qed
  have d6: "getOptionDecoder collectionDecoder (b6 @ r) =
              Some (InitializeData.collection d, r)" for r
  proof (rule option_roundtrip [OF b6])
    fix c b r'
    assume "InitializeData.collection d = Some c" and "collectionEncoder c = Inr b"
    then show "collectionDecoder (b @ r') = Some (c, r')"
      by (simp add: collection_roundtrip)
  qed
  have d7: "getOptionDecoder usesDecoder (b7 @ r) = Some (InitializeData.uses d, r)" for r
  proof (rule option_roundtrip [OF b7])
    fix us b r'
    assume us: "InitializeData.uses d = Some us" and b: "usesEncoder us = Inr b"
    from assms(1) us have "isInteger (Uses.use_method us)"
      by (simp add: initializeDataIntegral_def)
    then show "usesDecoder (b @ r') = Some (us, r')"
      using b by (rule uses_roundtrip)
  qed
  show ?thesis
    by (simp add: initializeDataDecoder_def bs d1 d2 d3 d4 i4 d5 d6 d7)
qed

lemma decode_initialize:
  assumes "createInitializeInstruction a = Inr i"
    and "initializeDataIntegral (initializeData a)"
  shows "initializeDataDecoder (drop 8 (data i)) = Some (initializeData a, [])"
proof -
  from framing_initialize [OF assms(1)]
  have "initializeDataEncoder (initializeData a) = Inr (drop 8 (data i))" by simp
  from initializeData_roundtrip [OF assms(2) this, of "[]"] show ?thesis by simp
qed

lemma decode_update_field:
  assumes "createUpdateFieldInstruction kind encs config a = Inr i"
    and "length decs = length encs"
    and "\<And>n b r. n < length encs \<Longrightarrow>
           kind (config (UpdateFieldInstruction.field a)) = fst (encs ! n) \<Longrightarrow>
           snd (encs ! n) (config (UpdateFieldInstruction.field a)) = Inr b \<Longrightarrow>
           snd (decs ! n) (b @ r) = Some (config (UpdateFieldInstruction.field a), r)"
  shows "updateFieldDataDecoder decs (drop 8 (data i)) = Some (updateFieldData config a, [])"
proof -
  from framing_update_field [OF assms(1)]
  have e: "updateFieldDataEncoder kind encs (updateFieldData config a) = Inr (drop 8 (data i))"
    by simp
  have f: "UpdateFieldData.field (updateFieldData config a) =
             config (UpdateFieldInstruction.field a)"
    by (simp add: updateFieldData_def)
  have "updateFieldDataDecoder decs (drop 8 (data i) @ []) =
          Some (updateFieldData config a, [])"
    by (rule updateFieldData_roundtrip [OF e assms(2)]) (simp only: f assms(3))
  then show ?thesis by simp
qed

lemma decode_remove_key:
  assumes "createRemoveKeyInstruction a = Inr i"
  shows "removeKeyDataDecoder (drop 8 (data i)) = Some (removeKeyData a, [])"
proof -
  from framing_remove_key [OF assms]
  have "removeKeyDataEncoder (removeKeyData a) = Inr (drop 8 (data i))" by simp
  from removeKeyData_roundtrip [OF this, of "[]"] show ?thesis by simp
qed

lemma decode_update_authority:
  assumes "createUpdateAuthorityInstruction a = Inr i"
  shows "updateAuthorityDataDecoder (drop 8 (data i)) = Some (updateAuthorityData a, [])"
proof -
  from framing_update_authority [OF assms]
  have "updateAuthorityDataEncoder (updateAuthorityData a) = Inr (drop 8 (data i))" by simp
  from updateAuthorityData_roundtrip [OF this, of "[]"] show ?thesis by simp
qed

lemma decode_emit:
  assumes "createEmitInstruction a = Inr i"
  shows "emitDataDecoder (drop 8 (data i)) = Some (emitData a, [])"
proof -
  from framing_emit [OF assms]
  have "emitDataEncoder (emitData a) = Inr (drop 8 (data i))" by simp
  from emitData_roundtrip [OF this, of "[]"] show ?thesis by simp
qed

lemma option_present_roundtrip:
  assumes "item x = Inr b" and "dec (b @ rest) = Some (x, rest)"
  shows "getOptionEncoder item (Some x) = Inr (1 # b) \<and>
         getOptionDecoder dec ((1 # b) @ rest) = Some (Some x, rest)"
  using assms by (simp add: getOptionDecoder_def getBooleanDecoder_flag)

lemma payload_of_arguments:
  "initializeData a1 =
     \<lparr>InitializeData.name = InitializeInstructionArgs.name a1,
      symbol = InitializeInstructionArgs.symbol a1,
      uri = InitializeInstructionArgs.uri a1,
      seller_fee_basis_points =
        (case sellerFeeBasisPoints a1 of None \<Rightarrow> 0 | Some f \<Rightarrow> f),
      creators =
        (case InitializeInstructionArgs.creators a1 of
           None \<Rightarrow> None
         | Some cs \<Rightarrow> if cs = [] then None else Some cs),
      collection =
        (case InitializeInstructionArgs.collection a1 of None \<Rightarrow> None | Some c \<Rightarrow> c),
      uses = (case InitializeInstructionArgs.uses a1 of None \<Rightarrow> None | Some u \<Rightarrow> u)\<rparr>"
  "updateFieldData config a2 =
     \<lparr>UpdateFieldData.field = config (UpdateFieldInstruction.field a2),
      value' = UpdateFieldInstruction.value' a2\<rparr>"
  "removeKeyData a3 =
     \<lparr>RemoveKeyData.idempotent = RemoveKeyInstructionArgs.idempotent a3,
      key = RemoveKeyInstructionArgs.key a3\<rparr>"
  "updateAuthorityData a4 =
     \<lparr>UpdateAuthorityData.newAuthority =
        (case UpdateAuthorityInstructionArgs.newAuthority a4 of
           None \<Rightarrow> SystemProgram_programId
         | Some k \<Rightarrow> k)\<rparr>"
  "emitData a5 = \<lparr>EmitData.start = EmitInstructionArgs.start a5,
                  end' = EmitInstructionArgs.end' a5\<rparr>"
  by (simp_all add: initializeData_def updateFieldData_def removeKeyData_def
      updateAuthorityData_def emitData_def default_to_def Let_def split: option.splits)

text \<open>
  Claim C7, as amended. Decoding the bytes after the discriminator with the inverse layout
  gives back, with no byte left over, the field values that the builder encoded, provided
  the numbers that Initialize writes as u8 and u16 (the fee, each creator's share and the
  use method) are integers and the strings are well-formed, as every string of the model
  is. The encoded values are the argument's values after the
  substitutions the spec names: an omitted or empty creators list is absent, an omitted
  fee is 0, an omitted collection or uses is absent, and a null new authority is the
  system program's key. For UpdateField the decoders of the table of variants must invert
  its encoders. An optional field that is encoded absent decodes to absent, and one that
  is encoded present decodes to the same present value.
\<close>

theorem decode_reproduces_encoded_payload:
  "(createInitializeInstruction a1 = Inr i1 \<and> initializeDataIntegral (initializeData a1) \<longrightarrow>
      initializeDataDecoder (drop 8 (data i1)) = Some (initializeData a1, [])) \<and>
   (createUpdateFieldInstruction kind encs config a2 = Inr i2 \<and> length decs = length encs \<and>
    (\<forall>n b r. n < length encs \<and>
        kind (config (UpdateFieldInstruction.field a2)) = fst (encs ! n) \<and>
        snd (encs ! n) (config (UpdateFieldInstruction.field a2)) = Inr b \<longrightarrow>
        snd (decs ! n) (b @ r) = Some (config (UpdateFieldInstruction.field a2), r)) \<longrightarrow>
      updateFieldDataDecoder decs (drop 8 (data i2)) = Some (updateFieldData config a2, [])) \<and>
   (createRemoveKeyInstruction a3 = Inr i3 \<longrightarrow>
      removeKeyDataDecoder (drop 8 (data i3)) = Some (removeKeyData a3, [])) \<and>
   (createUpdateAuthorityInstruction a4 = Inr i4 \<longrightarrow>
      updateAuthorityDataDecoder (drop 8 (data i4)) = Some (updateAuthorityData a4, [])) \<and>
   (createEmitInstruction a5 = Inr i5 \<longrightarrow>
      emitDataDecoder (drop 8 (data i5)) = Some (emitData a5, [])) \<and>
   initializeData a1 =
     \<lparr>InitializeData.name = InitializeInstructionArgs.name a1,
      symbol = InitializeInstructionArgs.symbol a1,
      uri = InitializeInstructionArgs.uri a1,
      seller_fee_basis_points =
        (case sellerFeeBasisPoints a1 of None \<Rightarrow> 0 | Some f \<Rightarrow> f),
      creators =
        (case InitializeInstructionArgs.creators a1 of
           None \<Rightarrow> None
         | Some cs \<Rightarrow> if cs = [] then None else Some cs),
      collection =
        (case InitializeInstructionArgs.collection a1 of None \<Rightarrow> None | Some c \<Rightarrow> c),
      uses = (case InitializeInstructionArgs.uses a1 of None \<Rightarrow> None | Some u \<Rightarrow> u)\<rparr> \<and>
   updateFieldData config a2 =
     \<lparr>UpdateFieldData.field = config (UpdateFieldInstruction.field a2),
      value' = UpdateFieldInstruction.value' a2\<rparr> \<and>
   removeKeyData a3 =
     \<lparr>RemoveKeyData.idempotent = RemoveKeyInstructionArgs.idempotent a3,
      key = RemoveKeyInstructionArgs.key a3\<rparr> \<and>
   updateAuthorityData a4 =
     \<lparr>UpdateAuthorityData.newAuthority =
        (case UpdateAuthorityInstructionArgs.newAuthority a4 of
           None \<Rightarrow> SystemProgram_programId
         | Some k \<Rightarrow> k)\<rparr> \<and>
   emitData a5 = \<lparr>EmitData.start = EmitInstructionArgs.start a5,
                  end' = EmitInstructionArgs.end' a5\<rparr> \<and>
   getOptionEncoder item None = Inr [0] \<and>
   getOptionDecoder dec ([0] @ rest) = Some (None, rest) \<and>
   (item x = Inr b \<and> dec (b @ rest) = Some (x, rest) \<longrightarrow>
      getOptionEncoder item (Some x) = Inr (1 # b) \<and>
      getOptionDecoder dec ((1 # b) @ rest) = Some (Some x, rest))"
proof (intro conjI impI)
  show "initializeDataDecoder (drop 8 (data i1)) = Some (initializeData a1, [])"
    if "createInitializeInstruction a1 = Inr i1 \<and> initializeDataIntegral (initializeData a1)"
    using that by (blast intro: decode_initialize)
  show "updateFieldDataDecoder decs (drop 8 (data i2)) = Some (updateFieldData config a2, [])"
    if h: "createUpdateFieldInstruction kind encs config a2 = Inr i2 \<and>
        length decs = length encs \<and>
        (\<forall>n b r. n < length encs \<and>
          kind (config (UpdateFieldInstruction.field a2)) = fst (encs ! n) \<and>
          snd (encs ! n) (config (UpdateFieldInstruction.field a2)) = Inr b \<longrightarrow>
          snd (decs ! n) (b @ r) = Some (config (UpdateFieldInstruction.field a2), r))"
  proof (rule decode_update_field)
    from h show "createUpdateFieldInstruction kind encs config a2 = Inr i2" by blast
    from h show "length decs = length encs" by blast
    fix n b r
    assume "n < length encs"
      and "kind (config (UpdateFieldInstruction.field a2)) = fst (encs ! n)"
      and "snd (encs ! n) (config (UpdateFieldInstruction.field a2)) = Inr b"
    with h show "snd (decs ! n) (b @ r) = Some (config (UpdateFieldInstruction.field a2), r)"
      by blast
  qed
  show "removeKeyDataDecoder (drop 8 (data i3)) = Some (removeKeyData a3, [])"
    if "createRemoveKeyInstruction a3 = Inr i3"
    using that by (rule decode_remove_key)
  show "updateAuthorityDataDecoder (drop 8 (data i4)) = Some (updateAuthorityData a4, [])"
    if "createUpdateAuthorityInstruction a4 = Inr i4"
    using that by (rule decode_update_authority)
  show "emitDataDecoder (drop 8 (data i5)) = Some (emitData a5, [])"
    if "createEmitInstruction a5 = Inr i5"
    using that by (rule decode_emit)
  show "getOptionEncoder item None = Inr [0]" by simp
  show "getOptionDecoder dec ([0] @ rest) = Some (None, rest)"
    by (simp add: getOptionDecoder_def getBooleanDecoder_flag)
  show "getOptionEncoder item (Some x) = Inr (1 # b)"
    if "item x = Inr b \<and> dec (b @ rest) = Some (x, rest)"
    using that option_present_roundtrip [of item x b dec rest] by blast
  show "getOptionDecoder dec ((1 # b) @ rest) = Some (Some x, rest)"
    if "item x = Inr b \<and> dec (b @ rest) = Some (x, rest)"
    using that option_present_roundtrip [of item x b dec rest] by blast
qed (rule payload_of_arguments)+

lemma field_codec_inverse:
  "\<forall>n b r. n < length getFieldCodec \<and>
      layoutKind (getFieldConfig (UpdateFieldInstruction.field example_update_field_args)) =
        fst (getFieldCodec ! n) \<and>
      snd (getFieldCodec ! n)
        (getFieldConfig (UpdateFieldInstruction.field example_update_field_args)) = Inr b \<longrightarrow>
      snd (getFieldDecoders ! n) (b @ r) =
        Some (getFieldConfig (UpdateFieldInstruction.field example_update_field_args), r)"
proof (intro allI impI, elim conjE)
  fix n b r
  assume n: "n < length getFieldCodec"
    and k: "layoutKind (getFieldConfig (UpdateFieldInstruction.field example_update_field_args))
              = fst (getFieldCodec ! n)"
    and b: "snd (getFieldCodec ! n)
              (getFieldConfig (UpdateFieldInstruction.field example_update_field_args)) = Inr b"
  have f: "getFieldConfig (UpdateFieldInstruction.field example_update_field_args) =
             KeyLayout ''color''"
    by (simp add: example_update_field_args_def)
  from n have "n = 0 \<or> n = 1 \<or> n = 2 \<or> n = 3"
    by (auto simp: getFieldCodec_def)
  with k f have n3: "n = 3"
    by (auto simp: getFieldCodec_def)
  with b f have "getStringEncoder ''color'' = Inr b"
    by (auto simp: getFieldCodec_def write_then_eq_Inr)
  from string_roundtrip [OF this, of r] n3 f
  show "snd (getFieldDecoders ! n) (b @ r) =
        Some (getFieldConfig (UpdateFieldInstruction.field example_update_field_args), r)"
    by (simp add: getFieldDecoders_def)
qed

theorem decode_reproduces_encoded_payload_witness:
  "initializeDataIntegral (initializeData example_initialize_args) \<and>
   initializeDataDecoder
       (drop 8 (data (projr (createInitializeInstruction example_initialize_args)))) =
     Some (initializeData example_initialize_args, []) \<and>
   updateFieldDataDecoder getFieldDecoders
       (drop 8 (data (projr (createUpdateFieldInstruction layoutKind getFieldCodec
                               getFieldConfig example_update_field_args)))) =
     Some (\<lparr>UpdateFieldData.field = KeyLayout ''color'', value' = ''red''\<rparr>, []) \<and>
   removeKeyDataDecoder
       (drop 8 (data (projr (createRemoveKeyInstruction example_remove_key_args)))) =
     Some (\<lparr>RemoveKeyData.idempotent = False, key = ''color''\<rparr>, []) \<and>
   updateAuthorityDataDecoder
       (drop 8 (data (projr (createUpdateAuthorityInstruction example_update_authority_args)))) =
     Some (\<lparr>UpdateAuthorityData.newAuthority = example_key 9\<rparr>, []) \<and>
   emitDataDecoder (drop 8 (data (projr (createEmitInstruction example_emit_args)))) =
     Some (\<lparr>EmitData.start = None, end' = Some 258\<rparr>, []) \<and>
   getOptionEncoder (transformEncoder getU64Encoder BigInt) (Some 258) =
     Inr (1 # le_bytes 8 258) \<and>
   getOptionDecoder getU64Decoder ((1 # le_bytes 8 258) @ []) = Some (Some 258, [])"
proof -
  note T = decode_reproduces_encoded_payload
    [where ?a1.0 = example_initialize_args
       and ?i1.0 = "projr (createInitializeInstruction example_initialize_args)"
       and kind = layoutKind and encs = getFieldCodec
       and decs = getFieldDecoders and config = getFieldConfig
       and ?a2.0 = example_update_field_args
       and ?i2.0 = "projr (createUpdateFieldInstruction layoutKind getFieldCodec
                            getFieldConfig example_update_field_args)"
       and ?a3.0 = example_remove_key_args
       and ?i3.0 = "projr (createRemoveKeyInstruction example_remove_key_args)"
       and ?a4.0 = example_update_authority_args
       and ?i4.0 = "projr (createUpdateAuthorityInstruction example_update_authority_args)"
       and ?a5.0 = example_emit_args
       and ?i5.0 = "projr (createEmitInstruction example_emit_args)"
       and item = "transformEncoder getU64Encoder BigInt" and dec = getU64Decoder
       and x = 258 and b = "le_bytes 8 258" and rest = "[]"]
  from example_initialize_succeeds
  have e1: "createInitializeInstruction example_initialize_args =
              Inr (projr (createInitializeInstruction example_initialize_args))"
    by (blast intro: Inr_projr)
  from example_update_field_succeeds
  have e2: "createUpdateFieldInstruction layoutKind getFieldCodec getFieldConfig
              example_update_field_args =
            Inr (projr (createUpdateFieldInstruction layoutKind getFieldCodec
                          getFieldConfig example_update_field_args))"
    by (blast intro: Inr_projr)
  from example_remove_key_succeeds
  have e3: "createRemoveKeyInstruction example_remove_key_args =
              Inr (projr (createRemoveKeyInstruction example_remove_key_args))"
    by (blast intro: Inr_projr)
  from example_update_authority_succeeds
  have e4: "createUpdateAuthorityInstruction example_update_authority_args =
              Inr (projr (createUpdateAuthorityInstruction example_update_authority_args))"
    by (blast intro: Inr_projr)
  from example_emit_succeeds
  have e5: "createEmitInstruction example_emit_args =
              Inr (projr (createEmitInstruction example_emit_args))"
    by (blast intro: Inr_projr)
  have v1: "initializeDataIntegral (initializeData example_initialize_args)"
    by (simp add: initializeDataIntegral_def isInteger_def initializeData_def default_to_def
        example_initialize_args_def)
  have len: "length getFieldDecoders = length getFieldCodec"
    by (simp add: getFieldDecoders_def getFieldCodec_def)
  have o1: "transformEncoder getU64Encoder BigInt 258 = Inr (le_bytes 8 258)"
    by (simp add: transformEncoder_def getU64Encoder_BigInt)
  then have "getU64Encoder (BigInt 258) = Inr (le_bytes 8 258)"
    by (simp add: transformEncoder_def)
  then have o2: "getU64Decoder (le_bytes 8 258 @ []) = Some (258, [])"
    by (rule getU64_BigInt_roundtrip)
  have r1: "initializeDataDecoder
       (drop 8 (data (projr (createInitializeInstruction example_initialize_args)))) =
     Some (initializeData example_initialize_args, [])"
    using T e1 v1 by blast
  have r2: "updateFieldDataDecoder getFieldDecoders
       (drop 8 (data (projr (createUpdateFieldInstruction layoutKind getFieldCodec
                               getFieldConfig example_update_field_args)))) =
     Some (updateFieldData getFieldConfig example_update_field_args, [])"
    using T e2 len field_codec_inverse by blast
  have r3: "removeKeyDataDecoder
       (drop 8 (data (projr (createRemoveKeyInstruction example_remove_key_args)))) =
     Some (removeKeyData example_remove_key_args, [])"
    using T e3 by blast
  have r4: "updateAuthorityDataDecoder
       (drop 8 (data (projr (createUpdateAuthorityInstruction example_update_authority_args)))) =
     Some (updateAuthorityData example_update_authority_args, [])"
    using T e4 by blast
  have r5: "emitDataDecoder (drop 8 (data (projr (createEmitInstruction example_emit_args)))) =
     Some (emitData example_emit_args, [])"
    using T e5 by blast
  have r6: "getOptionEncoder (transformEncoder getU64Encoder BigInt) (Some 258) =
       Inr (1 # le_bytes 8 258) \<and>
     getOptionDecoder getU64Decoder ((1 # le_bytes 8 258) @ []) = Some (Some 258, [])"
    using T o1 o2 by blast
  show ?thesis
    unfolding r1 r2 r3 r4 r5
    using v1 r6
    by (simp add: updateFieldData_def removeKeyData_def updateAuthorityData_def emitData_def
        example_update_field_args_def example_remove_key_args_def
        example_update_authority_args_def example_emit_args_def)
qed

lemma floor_three_halves: "\<lfloor>3 / 2 :: rat\<rfloor> = 1"
  by (rule floor_unique) simp_all

text \<open>
  The claim as stated fails. A creator's share is a number, and Initialize accepts the
  share 1.5: it produces an instruction, writes the share as the byte 1, and the decoded
  payload holds the share 1. The same bytes are produced for the share 1, so no decoder
  can give back both.
\<close>

theorem roundtrip_counterexample:
  "createInitializeInstruction example_fraction_initialize_args =
   Inr \<lparr>TransactionInstruction.programId = example_key 0,
        keys = [\<lparr>isSigner = False, isWritable = True, pubkey = example_key 1\<rparr>,
                \<lparr>isSigner = False, isWritable = False, pubkey = example_key 4\<rparr>,
                \<lparr>isSigner = False, isWritable = False, pubkey = example_key 2\<rparr>,
                \<lparr>isSigner = True, isWritable = False, pubkey = example_key 3\<rparr>],
        data = [210, 225, 30, 162, 88, 184, 77, 141] @ [1, 0, 0, 0, 97] @ [1, 0, 0, 0, 98] @
               [1, 0, 0, 0, 99] @ [0, 0] @ [1] @ [1, 0, 0, 0] @
               (replicate 32 5 @ [0] @ [1]) @ [0] @ [0]\<rparr> \<and>
   InitializeData.creators (initializeData example_fraction_initialize_args) =
     Some [\<lparr>address = example_key 5, Creator.verified = False, share = 3 / 2\<rparr>] \<and>
   map_option (\<lambda>r. InitializeData.creators (fst r))
     (initializeDataDecoder
        (drop 8 (data (projr (createInitializeInstruction
           example_fraction_initialize_args))))) =
     Some (Some [\<lparr>address = example_key 5, Creator.verified = False, share = 1\<rparr>]) \<and>
   createInitializeInstruction example_fraction_initialize_args =
     createInitializeInstruction
       (example_fraction_initialize_args
          \<lparr>InitializeInstructionArgs.creators :=
             Some [\<lparr>address = example_key 5, Creator.verified = False, share = 1\<rparr>]\<rparr>)"
proof -
  let ?b = "example_fraction_initialize_args
          \<lparr>InitializeInstructionArgs.creators :=
             Some [\<lparr>address = example_key 5, Creator.verified = False, share = 1\<rparr>]\<rparr>"
  have c1: "createInitializeInstruction example_fraction_initialize_args =
   Inr \<lparr>TransactionInstruction.programId = example_key 0,
        keys = [\<lparr>isSigner = False, isWritable = True, pubkey = example_key 1\<rparr>,
                \<lparr>isSigner = False, isWritable = False, pubkey = example_key 4\<rparr>,
                \<lparr>isSigner = False, isWritable = False, pubkey = example_key 2\<rparr>,
                \<lparr>isSigner = True, isWritable = False, pubkey = example_key 3\<rparr>],
        data = [210, 225, 30, 162, 88, 184, 77, 141] @ [1, 0, 0, 0, 97] @ [1, 0, 0, 0, 98] @
               [1, 0, 0, 0, 99] @ [0, 0] @ [1] @ [1, 0, 0, 0] @
               (replicate 32 5 @ [0] @ [1]) @ [0] @ [0]\<rparr>"
    by (simp add: evaluation example_fraction_initialize_args_def
        example_plain_initialize_args_def floor_three_halves)
  have c2: "InitializeData.creators (initializeData example_fraction_initialize_args) =
     Some [\<lparr>address = example_key 5, Creator.verified = False, share = 3 / 2\<rparr>]"
    by (simp add: initializeData_def default_to_def example_fraction_initialize_args_def
        example_plain_initialize_args_def)
  have c4: "createInitializeInstruction example_fraction_initialize_args =
     createInitializeInstruction ?b"
    by (simp add: evaluation example_fraction_initialize_args_def
        example_plain_initialize_args_def floor_three_halves)
  from c1 c4 have eb: "createInitializeInstruction ?b =
      Inr (projr (createInitializeInstruction ?b))"
    by simp
  have ib: "initializeDataIntegral (initializeData ?b)"
    by (simp add: initializeDataIntegral_def isInteger_def initializeData_def default_to_def
        example_fraction_initialize_args_def example_plain_initialize_args_def)
  have cb: "InitializeData.creators (initializeData ?b) =
     Some [\<lparr>address = example_key 5, Creator.verified = False, share = 1\<rparr>]"
    by (simp add: initializeData_def default_to_def)
  from decode_initialize [OF eb ib]
  have "map_option (\<lambda>r. InitializeData.creators (fst r))
     (initializeDataDecoder (drop 8 (data (projr (createInitializeInstruction ?b))))) =
     Some (Some [\<lparr>address = example_key 5, Creator.verified = False, share = 1\<rparr>])"
    by (simp add: cb)
  then have c3: "map_option (\<lambda>r. InitializeData.creators (fst r))
     (initializeDataDecoder
        (drop 8 (data (projr (createInitializeInstruction
           example_fraction_initialize_args))))) =
     Some (Some [\<lparr>address = example_key 5, Creator.verified = False, share = 1\<rparr>])"
    by (simp only: c4)
  from c1 c2 c3 c4 show ?thesis by blast
qed

end
